theory Spec2Isabelle
  imports Complex_Main
begin

section \<open>JavaScript values and string operations used by the probe\<close>

text \<open>
  A JavaScript number as the free-space probe can produce it: \<open>parseInt\<close> yields either
  an integer or \<open>NaN\<close>. Every comparison with \<open>NaN\<close> is false. Integers stay below
  \<open>2^53\<close> in any real run, where a double holds them exactly.
\<close>

datatype jsnum = NaN | Num int

fun js_ge :: "jsnum \<Rightarrow> int \<Rightarrow> bool" where
  "js_ge NaN k = False"
| "js_ge (Num n) k = (n \<ge> k)"

fun js_lt :: "jsnum \<Rightarrow> int \<Rightarrow> bool" where
  "js_lt NaN k = False"
| "js_lt (Num n) k = (n < k)"

text \<open>\<open>a < b\<close> where \<open>b\<close> is a fractional number (a size quotient plus a buffer).\<close>

fun js_lt_rat :: "jsnum \<Rightarrow> rat \<Rightarrow> bool" where
  "js_lt_rat NaN q = False"
| "js_lt_rat (Num n) q = (of_int n < q)"

text \<open>
  White space as \<open>String.prototype.trim\<close>, the regular expression class \<open>\s\<close> and
  \<open>parseInt\<close> see it, restricted to the ASCII range (space, tab, line feed, vertical tab,
  form feed, carriage return).
\<close>

definition isWhiteSpace :: "char \<Rightarrow> bool" where
  "isWhiteSpace c =
     (c = CHR '' '' \<or> c = CHR 0x09 \<or> c = CHR 0x0A \<or> c = CHR 0x0B \<or> c = CHR 0x0C \<or> c = CHR 0x0D)"

definition isDigit :: "char \<Rightarrow> bool" where
  "isDigit c = ((48::nat) \<le> of_char c \<and> of_char c \<le> (57::nat))"

definition trim :: "string \<Rightarrow> string" where
  "trim s = rev (dropWhile isWhiteSpace (rev (dropWhile isWhiteSpace s)))"

text \<open>\<open>s.split('\n')\<close>: the pieces between separators; an empty string gives one empty piece.\<close>

fun split_char :: "char \<Rightarrow> string \<Rightarrow> string list" where
  "split_char c [] = [[]]"
| "split_char c (x # xs) =
     (if x = c then [] # split_char c xs
      else (case split_char c xs of
              [] \<Rightarrow> [[x]]
            | f # fs \<Rightarrow> (x # f) # fs))"

text \<open>
  \<open>s.split(/\s+/)\<close>: every maximal run of white space is one separator; a run at the start
  or at the end leaves an empty piece there.
\<close>

function split_ws :: "string \<Rightarrow> string list" where
  "split_ws [] = [[]]"
| "split_ws (x # xs) =
     (if isWhiteSpace x then [] # split_ws (dropWhile isWhiteSpace xs)
      else (case split_ws xs of
              [] \<Rightarrow> [[x]]
            | f # fs \<Rightarrow> (x # f) # fs))"
  by pat_completeness auto
termination
  by (relation "measure length") (auto simp: le_imp_less_Suc length_dropWhile_le)

text \<open>\<open>s.replace('G', '')\<close> removes the first occurrence only.\<close>

definition replace_first :: "char \<Rightarrow> string \<Rightarrow> string" where
  "replace_first c s = remove1 c s"

definition digit_val :: "char \<Rightarrow> int" where
  "digit_val c = int (of_char c) - 48"

definition digits_val :: "string \<Rightarrow> int" where
  "digits_val ds = foldl (\<lambda>a c. 10 * a + digit_val c) 0 ds"

text \<open>
  \<open>parseInt(s, 10)\<close>: leading white space is skipped, one sign is read, then the longest
  run of decimal digits; with no digit the result is \<open>NaN\<close>, and whatever follows the
  digits is ignored.
\<close>

definition parseInt :: "string \<Rightarrow> jsnum" where
  "parseInt s =
     (let t = dropWhile isWhiteSpace s;
          neg = (t \<noteq> [] \<and> hd t = CHR ''-'');
          body = (if t \<noteq> [] \<and> (hd t = CHR ''-'' \<or> hd t = CHR ''+'') then tl t else t);
          ds = takeWhile isDigit body
      in if ds = [] then NaN
         else Num (if neg then - digits_val ds else digits_val ds))"

section \<open>The free-space probe (src/modules/disk.js, \<open>getFreeSpace\<close>)\<close>

text \<open>What the callback of \<open>exec\<close> receives from \<open>df -BG device\<close>.\<close>

record exec_result =
  exec_err :: "string option"
  exec_stdout :: string
  exec_stderr :: string

datatype probe_error =
    DfFailed
  | UnexpectedOutput
  | ParseFailed

text \<open>
  The callback of \<open>getFreeSpace\<close>, on the outcome of the command: \<open>Inl\<close> is a rejected
  promise, \<open>Inr\<close> the resolved value. Reading \<open>fields[3]\<close> of a shorter array gives
  \<open>undefined\<close>, whose \<open>.replace\<close> raises a TypeError that the \<open>catch\<close> turns into a
  rejection.
\<close>

definition getFreeSpace_cb :: "exec_result \<Rightarrow> probe_error + jsnum" where
  "getFreeSpace_cb r =
     (if exec_err r \<noteq> None then Inl DfFailed
      else if exec_stderr r \<noteq> [] then Inl DfFailed
      else
        let output = trim (exec_stdout r);
            lines = split_char (CHR 0x0A) output
        in if length lines < 2 then Inl UnexpectedOutput
           else
             let fields = split_ws (lines ! 1)
             in if length fields \<le> 3 then Inl ParseFailed
                else Inr (parseInt (replace_first (CHR ''G'') (fields ! 3))))"

section \<open>Configuration, file system and the outside world\<close>

type_synonym path = string

text \<open>
  One entry of \<open>archiveDisksSections\<close> or \<open>incomingDisksSections\<close>. The configuration key
  \<open>section\<close> holds the label; a missing \<open>dated\<close> key is falsy.
\<close>

record disk_section =
  sec_path :: path
  sec_device :: string
  sec_section :: string
  sec_dated :: bool

record config =
  incomingDisksSections :: "disk_section list"
  archiveDisksSections :: "disk_section list"
  freeSpaceLimitGBRace :: int
  freeSpaceLimitGBArchive :: int
  archiveBufferGB :: int
  debug :: bool
  GLLogFile :: "string option"

text \<open>
  A directory as the program observes it: its modification time in milliseconds (what
  \<open>stat\<close> reports), whether \<open>readdir\<close> may list it, its top-level entries in listing
  order, and the byte total that \<open>getDirectorySize\<close> computes for it (the recursive sum is
  taken as an attribute of the directory; no claim depends on how it is summed). Sizes are
  JavaScript numbers holding integers.
  The file system maps a full path to the directory there.
\<close>

datatype dirent = Dirent (dirent_name: string) (isDirectory: bool)

record dir =
  mtimeMs :: int
  readable :: bool
  entries :: "dirent list"
  dsize :: int

type_synonym filesys = "path \<Rightarrow> dir option"

text \<open>The release object that the scan builds and the managers pass around.\<close>

record release =
  rel_path :: path
  rel_name :: string
  rel_mtime :: int
  rel_size :: int
  rel_section :: string

text \<open>The lines written to the announce log, with their positional fields.\<close>

datatype announcement =
    TSM string int jsnum path jsnum string
  | TSD string int jsnum string jsnum string
  | TDELA string int string

text \<open>Every mutating action the program issues, in the order it issues them.\<close>

datatype command =
    RmRf path
  | RcloneCopy path path
  | Touch int path
  | DeleteDirectory path
  | Announce announcement

datatype error =
    ProbeError probe_error
  | FsError path
  | CommandFailed command

text \<open>
  The world a call runs in: the file system, the clock reading \<open>Date.now()\<close> (one reading
  per call), the behaviour of the external tools (what \<open>df -BG\<close> prints for a device given
  the file system; the exit status of \<open>rclone copy\<close> and the file system it leaves), the
  paths on which removal and \<open>touch\<close> are refused, and the commands issued so far.
\<close>

record world =
  fs :: filesys
  now :: int
  df :: "filesys \<Rightarrow> string \<Rightarrow> exec_result"
  rclone :: "filesys \<Rightarrow> path \<Rightarrow> path \<Rightarrow> bool \<times> filesys"
  denied :: "path \<Rightarrow> bool"
  issued :: "command list"

definition getFreeSpace :: "world \<Rightarrow> string \<Rightarrow> probe_error + jsnum" where
  "getFreeSpace w device = getFreeSpace_cb (df w (fs w) device)"

text \<open>
  \<open>path.join(a, b)\<close> and the template \<open>`${a}/${b}`\<close>, for section paths written without a
  trailing slash (on those the two agree).
\<close>

definition path_join :: "path \<Rightarrow> string \<Rightarrow> path" where
  "path_join a b = a @ ''/'' @ b"

definition readdir :: "world \<Rightarrow> path \<Rightarrow> dirent list option" where
  "readdir w p =
     (case fs w p of
        None \<Rightarrow> None
      | Some d \<Rightarrow> if readable d then Some (entries d) else None)"

definition stat :: "world \<Rightarrow> path \<Rightarrow> int option" where
  "stat w p = map_option mtimeMs (fs w p)"

text \<open>\<open>q\<close> lies below the directory \<open>p\<close>.\<close>

definition under :: "path \<Rightarrow> path \<Rightarrow> bool" where
  "under p q = (take (Suc (length p)) q = p @ ''/'')"

text \<open>
  Removing the tree at \<open>p\<close>: the directory and everything below it are gone, and no
  listing names it any more.
\<close>

definition remove_tree :: "path \<Rightarrow> filesys \<Rightarrow> filesys" where
  "remove_tree p f =
     (\<lambda>q. if q = p \<or> under p q then None
          else map_option
                 (\<lambda>d. d\<lparr>entries := filter (\<lambda>e. path_join q (dirent_name e) \<noteq> p) (entries d)\<rparr>)
                 (f q))"

definition issue :: "command \<Rightarrow> world \<Rightarrow> world" where
  "issue c w = w\<lparr>issued := issued w @ [c]\<rparr>"

section \<open>Directory utilities (src/modules/disk.js from line 36 on: the \<open>utils\<close> module)\<close>

text \<open>
  \<open>deleteDirectory\<close>: lists the directory (a failure is rethrown), removes the content and
  then the directory. The removal is taken as one step: it either fails and changes
  nothing, or removes the whole tree.
\<close>

definition deleteDirectory :: "path \<Rightarrow> world \<Rightarrow> (error + unit) \<times> world" where
  "deleteDirectory dirPath w =
     (let w1 = issue (DeleteDirectory dirPath) w
      in case readdir w dirPath of
           None \<Rightarrow> (Inl (FsError dirPath), w1)
         | Some es \<Rightarrow>
             if denied w dirPath then (Inl (FsError dirPath), w1)
             else (Inr (), w1\<lparr>fs := remove_tree dirPath (fs w)\<rparr>))"

definition getDirectorySize :: "world \<Rightarrow> path \<Rightarrow> int" where
  "getDirectorySize w dirPath =
     (case fs w dirPath of
        None \<Rightarrow> 0
      | Some d \<Rightarrow> if readable d then dsize d else 0)"

definition isDirectoryEmpty :: "world \<Rightarrow> path \<Rightarrow> bool" where
  "isDirectoryEmpty w dirPath =
     (case readdir w dirPath of
        None \<Rightarrow> False
      | Some files \<Rightarrow> length files = 0)"

definition oneDayInMs :: int where
  "oneDayInMs = 24 * 60 * 60 * 1000"

definition isOlderThanOneDay :: "world \<Rightarrow> path \<Rightarrow> bool" where
  "isOlderThanOneDay w dirPath =
     (case stat w dirPath of
        None \<Rightarrow> False
      | Some m \<Rightarrow> now w - m > oneDayInMs)"

text \<open>
  The pattern \<open>/^\d+$/\<close> with which \<open>getIncomingReleases\<close> keeps the dated directories.
  \<open>findOldestDirectory\<close> does not use it.
\<close>

definition numericName :: "string \<Rightarrow> bool" where
  "numericName n = (n \<noteq> [] \<and> list_all isDigit n)"

text \<open>
  \<open>findOldestDirectory\<close>, per section. \<open>sectionDirectories\<close> is the list \<open>directories\<close>
  (the entries that are directories, with their joined path); \<open>directoryWithStats\<close> is the
  callback mapped over it, \<open>None\<close> standing for the \<open>null\<close> of a skipped or failed
  directory; \<open>validDirectories\<close> is the filtered result, empty when the section cannot be
  listed.
\<close>

definition sectionDirectories :: "disk_section \<Rightarrow> dirent list \<Rightarrow> (path \<times> string) list" where
  "sectionDirectories s es =
     map (\<lambda>e. (path_join (sec_path s) (dirent_name e), dirent_name e)) (filter isDirectory es)"

definition directoryWithStats :: "world \<Rightarrow> disk_section \<Rightarrow> path \<times> string \<Rightarrow> release option" where
  "directoryWithStats w s d =
     (case stat w (fst d) of
        None \<Rightarrow> None
      | Some m \<Rightarrow>
          if sec_dated s \<and> \<not> isOlderThanOneDay w (fst d) then None
          else Some \<lparr>rel_path = fst d, rel_name = snd d, rel_mtime = m,
                     rel_size = getDirectorySize w (fst d), rel_section = sec_section s\<rparr>)"

definition validDirectories :: "world \<Rightarrow> disk_section \<Rightarrow> release list" where
  "validDirectories w s =
     (case readdir w (sec_path s) of
        None \<Rightarrow> []
      | Some es \<Rightarrow> List.map_filter (directoryWithStats w s) (sectionDirectories s es))"

text \<open>
  All eligible directories of the given sections, in section order and then in listing
  order; and, of a list of releases, the one with the earliest modification time, the
  first such one on ties (the reading of "oldest" that the scan is compared with).
\<close>

definition candidates :: "world \<Rightarrow> disk_section list \<Rightarrow> release list" where
  "candidates w sections = concat (map (validDirectories w) sections)"

fun earliest :: "release list \<Rightarrow> release option" where
  "earliest [] = None"
| "earliest (r # rs) =
     (case earliest rs of
        None \<Rightarrow> Some r
      | Some r' \<Rightarrow> if rel_mtime r \<le> rel_mtime r' then Some r else Some r')"

text \<open>
  The loop over the sections, with the running \<open>globalOldestRelease\<close>.
  \<open>Array.prototype.sort\<close> is stable and the comparator orders by \<open>mtime\<close>, which is what
  \<open>sort_key\<close> computes.
\<close>

fun findOldestLoop :: "world \<Rightarrow> disk_section list \<Rightarrow> release option \<Rightarrow> release option" where
  "findOldestLoop w [] globalOldestRelease = globalOldestRelease"
| "findOldestLoop w (s # ss) globalOldestRelease =
     (case readdir w (sec_path s) of
        None \<Rightarrow> findOldestLoop w ss globalOldestRelease
      | Some es \<Rightarrow>
          if sectionDirectories s es = [] then findOldestLoop w ss globalOldestRelease
          else
            (case sort_key rel_mtime
                    (List.map_filter (directoryWithStats w s) (sectionDirectories s es)) of
               [] \<Rightarrow> findOldestLoop w ss globalOldestRelease
             | oldestRelease # rest \<Rightarrow>
                 (case globalOldestRelease of
                    None \<Rightarrow> findOldestLoop w ss (Some oldestRelease)
                  | Some g \<Rightarrow>
                      if rel_mtime oldestRelease < rel_mtime g
                      then findOldestLoop w ss (Some oldestRelease)
                      else findOldestLoop w ss (Some g))))"

definition findOldestDirectory :: "disk_section list \<Rightarrow> world \<Rightarrow> release option" where
  "findOldestDirectory sections w = findOldestLoop w sections None"

definition getOldestIncomingRelease :: "disk_section list \<Rightarrow> world \<Rightarrow> release option" where
  "getOldestIncomingRelease sections w = findOldestDirectory sections w"

definition getOldestArchiveRelease :: "disk_section list \<Rightarrow> world \<Rightarrow> release option" where
  "getOldestArchiveRelease sections w = findOldestDirectory sections w"

section \<open>The copy tool (src/modules/rclone.js)\<close>

text \<open>
  \<open>rcloneSync\<close>: in debug mode the command is only logged; otherwise it is run, and a
  nonzero exit is rethrown. Whatever the tool did to the file system stays.
\<close>

definition rcloneSync :: "config \<Rightarrow> path \<Rightarrow> string \<Rightarrow> path \<Rightarrow> world \<Rightarrow> (error + unit) \<times> world" where
  "rcloneSync cfg sourcePath sourceName destinationPath w =
     (if debug cfg then (Inr (), w)
      else
        let src = path_join sourcePath sourceName;
            dst = path_join destinationPath sourceName;
            w1 = issue (RcloneCopy src dst) w;
            r = rclone w (fs w) src dst
        in if fst r then (Inr (), w1\<lparr>fs := snd r\<rparr>)
           else (Inl (CommandFailed (RcloneCopy src dst)), w1\<lparr>fs := snd r\<rparr>))"

text \<open>
  \<open>setTimestamp\<close>: \<open>touch -d @timestamp destination\<close> sets the modification time to
  whole seconds. On a path that holds no directory \<open>touch\<close> would create a plain file,
  which this file system of directories does not record.
\<close>

definition setTimestamp :: "config \<Rightarrow> path \<Rightarrow> int \<Rightarrow> world \<Rightarrow> (error + unit) \<times> world" where
  "setTimestamp cfg destination timestamp w =
     (if debug cfg then (Inr (), w)
      else
        let w1 = issue (Touch timestamp destination) w
        in if denied w destination then (Inl (CommandFailed (Touch timestamp destination)), w1)
           else
             (case fs w destination of
                None \<Rightarrow> (Inr (), w1)
              | Some d \<Rightarrow>
                  (Inr (), w1\<lparr>fs := (fs w)(destination \<mapsto> d\<lparr>mtimeMs := timestamp * 1000\<rparr>)\<rparr>)))"

text \<open>
  \<open>wipeDestination\<close>: \<open>rm -rf\<close> succeeds on a missing path and fails only where removal
  is refused.
\<close>

definition wipeDestination :: "path \<Rightarrow> string \<Rightarrow> world \<Rightarrow> (error + unit) \<times> world" where
  "wipeDestination destinationPath releaseName w =
     (let fullPath = path_join destinationPath releaseName;
          w1 = issue (RmRf fullPath) w
      in if denied w fullPath \<and> fs w fullPath \<noteq> None
         then (Inl (CommandFailed (RmRf fullPath)), w1)
         else (Inr (), w1\<lparr>fs := remove_tree fullPath (fs w)\<rparr>))"

text \<open>
  \<open>verifyFileCount\<close>: both listings are read; a failure of either is caught and gives
  \<open>false\<close>. Only the numbers of top-level entries are compared.
\<close>

definition verifyFileCount :: "path \<Rightarrow> path \<Rightarrow> world \<Rightarrow> bool" where
  "verifyFileCount source destination w =
     (case readdir w source of
        None \<Rightarrow> False
      | Some sourceFiles \<Rightarrow>
          (case readdir w destination of
             None \<Rightarrow> False
           | Some destFiles \<Rightarrow> length sourceFiles = length destFiles))"

section \<open>The announce log (src/unnamed/part_003: the \<open>announce\<close> module)\<close>

definition proc_announce :: "config \<Rightarrow> announcement \<Rightarrow> world \<Rightarrow> world" where
  "proc_announce cfg a w =
     (if GLLogFile cfg = None \<or> GLLogFile cfg = Some [] \<or> debug cfg then w
      else issue (Announce a) w)"

text \<open>\<open>Math.round(size / 1024 ** 2)\<close> on a byte count: halves round up.\<close>

definition sizeMB :: "int \<Rightarrow> int" where
  "sizeMB sz = (2 * sz + 1048576) div 2097152"

section \<open>The archive manager (src/unnamed/part_002: the \<open>archive\<close> module)\<close>

text \<open>
  The loop of \<open>manageArchive\<close> over \<open>config.archiveDisksSections\<close> with its two variables
  \<open>bestSection\<close> and \<open>mostFreeSpace\<close>. A rejected probe is caught and the section skipped;
  \<open>NaN > mostFreeSpace\<close> is false. \<open>mostFreeSpace\<close> starts at \<open>0\<close> and only ever takes a
  probed integer, so it is an integer throughout.
\<close>

fun bestSectionLoop ::
  "world \<Rightarrow> disk_section list \<Rightarrow> disk_section option \<times> int \<Rightarrow> disk_section option \<times> int" where
  "bestSectionLoop w [] acc = acc"
| "bestSectionLoop w (archiveSection # rest) (bestSection, mostFreeSpace) =
     (case getFreeSpace w (sec_device archiveSection) of
        Inl e \<Rightarrow> bestSectionLoop w rest (bestSection, mostFreeSpace)
      | Inr NaN \<Rightarrow> bestSectionLoop w rest (bestSection, mostFreeSpace)
      | Inr (Num freeSpace) \<Rightarrow>
          if freeSpace > mostFreeSpace
          then bestSectionLoop w rest (Some archiveSection, freeSpace)
          else bestSectionLoop w rest (bestSection, mostFreeSpace))"

text \<open>
  \<open>manageArchive\<close> with a release, up to the size check (source lines 23 to 87): the
  incoming section whose path holds the release, the label match, the section with the
  most free space, and the comparison \<open>mostFreeSpace < size / 1024 + archiveBufferGB\<close>.
  \<open>None\<close> is every \<open>return false\<close> of that part; otherwise the incoming section and
  \<open>bestSection\<close>.
\<close>

definition archiveTarget :: "config \<Rightarrow> release \<Rightarrow> world \<Rightarrow> (disk_section \<times> disk_section) option" where
  "archiveTarget cfg incomingRelease w =
     (case find (\<lambda>s. rel_path incomingRelease = path_join (sec_path s) (rel_name incomingRelease))
                (incomingDisksSections cfg) of
        None \<Rightarrow> None
      | Some incomingSection \<Rightarrow>
          if length (filter (\<lambda>s. sec_section s = sec_section incomingSection)
                            (archiveDisksSections cfg)) = 0
          then None
          else
            (case bestSectionLoop w (archiveDisksSections cfg) (None, 0) of
               (None, mostFreeSpace) \<Rightarrow> None
             | (Some bestSection, mostFreeSpace) \<Rightarrow>
                 if (of_int mostFreeSpace :: rat)
                      < of_int (rel_size incomingRelease) / 1024 + of_int (archiveBufferGB cfg)
                 then None
                 else Some (incomingSection, bestSection)))"

text \<open>
  The transfer (source lines 89 to 136). Every exception inside is caught and gives
  \<open>false\<close>; \<open>stat\<close> of a missing source is one of them.
\<close>

definition archiveTransfer ::
  "config \<Rightarrow> release \<Rightarrow> disk_section \<Rightarrow> disk_section \<Rightarrow> world \<Rightarrow> bool \<times> world" where
  "archiveTransfer cfg incomingRelease incomingSection bestSection w =
     (let sourcePath = sec_path incomingSection;
          sourceName = rel_name incomingRelease;
          destinationPath = sec_path bestSection;
          sourceFullPath = path_join sourcePath sourceName;
          destFullPath = path_join destinationPath sourceName
      in if debug cfg then (True, w)
         else
           (case wipeDestination destinationPath sourceName w of
              (Inl e, w1) \<Rightarrow> (False, w1)
            | (Inr u, w1) \<Rightarrow>
                (case rcloneSync cfg sourcePath sourceName destinationPath w1 of
                   (Inl e, w2) \<Rightarrow> (False, w2)
                 | (Inr u, w2) \<Rightarrow>
                     if \<not> verifyFileCount sourceFullPath destFullPath w2 then (False, w2)
                     else
                       (case stat w2 sourceFullPath of
                          None \<Rightarrow> (False, w2)
                        | Some m \<Rightarrow>
                            (case setTimestamp cfg destFullPath (m div 1000) w2 of
                               (Inl e, w3) \<Rightarrow> (False, w3)
                             | (Inr u, w3) \<Rightarrow>
                                 (case wipeDestination sourcePath sourceName w3 of
                                    (Inl e, w4) \<Rightarrow> (False, w4)
                                  | (Inr u, w4) \<Rightarrow> (True, w4)))))))"

definition archivePlace :: "config \<Rightarrow> release \<Rightarrow> world \<Rightarrow> bool \<times> world" where
  "archivePlace cfg incomingRelease w =
     (case archiveTarget cfg incomingRelease w of
        None \<Rightarrow> (False, w)
      | Some (incomingSection, bestSection) \<Rightarrow>
          archiveTransfer cfg incomingRelease incomingSection bestSection w)"

text \<open>
  The grouping of the archive sections by device: an object filled in configuration
  order, read back with \<open>Object.entries\<close> in insertion order (device names are not
  integer-like keys).
\<close>

fun group_insert ::
  "disk_section \<Rightarrow> (string \<times> disk_section list) list \<Rightarrow> (string \<times> disk_section list) list" where
  "group_insert s [] = [(sec_device s, [s])]"
| "group_insert s ((d, ss) # rest) =
     (if d = sec_device s then (d, ss @ [s]) # rest else (d, ss) # group_insert s rest)"

definition groupByDevice :: "disk_section list \<Rightarrow> (string \<times> disk_section list) list" where
  "groupByDevice sections = foldl (\<lambda>acc s. group_insert s acc) [] sections"

text \<open>
  The \<open>while\<close> loop of \<open>manageArchiveDiskSpace\<close> for one device. It need not end, so its
  value is an option: \<open>None\<close> is a loop that never returns. The result is
  \<open>cleanupPerformed\<close> and the world when the loop is left.
\<close>

partial_function (option) reclaimLoop ::
  "config \<Rightarrow> string \<Rightarrow> disk_section list \<Rightarrow> jsnum \<Rightarrow> bool \<Rightarrow> world \<Rightarrow> (bool \<times> world) option" where
  "reclaimLoop cfg device sections freeSpace cleanupPerformed w =
     (if js_lt freeSpace (freeSpaceLimitGBArchive cfg) then
        (case getOldestArchiveRelease sections w of
           None \<Rightarrow> Some (cleanupPerformed, w)
         | Some oldestRelease \<Rightarrow>
             (let w1 = proc_announce cfg
                         (TDELA (rel_name oldestRelease) (sizeMB (rel_size oldestRelease))
                                (rel_section oldestRelease)) w
              in if \<not> debug cfg then
                   (case deleteDirectory (rel_path oldestRelease) w1 of
                      (Inl e, w2) \<Rightarrow> Some (cleanupPerformed, w2)
                    | (Inr u, w2) \<Rightarrow>
                        (case getFreeSpace w2 device of
                           Inl e \<Rightarrow> Some (cleanupPerformed, w2)
                         | Inr freeSpace' \<Rightarrow> reclaimLoop cfg device sections freeSpace' True w2))
                 else reclaimLoop cfg device sections freeSpace cleanupPerformed w1))
      else Some (cleanupPerformed, w))"

text \<open>
  The loop over the devices. The first probe of a device is outside every \<open>try\<close>: its
  rejection leaves \<open>manageArchiveDiskSpace\<close> as an exception (\<open>Inl\<close>).
\<close>

fun reclaimDevices ::
  "config \<Rightarrow> (string \<times> disk_section list) list \<Rightarrow> bool \<Rightarrow> world
     \<Rightarrow> ((error + bool) \<times> world) option" where
  "reclaimDevices cfg [] cleanupPerformed w = Some (Inr cleanupPerformed, w)"
| "reclaimDevices cfg ((device, sections) # rest) cleanupPerformed w =
     (case getFreeSpace w device of
        Inl e \<Rightarrow> Some (Inl (ProbeError e), w)
      | Inr freeSpace \<Rightarrow>
          if js_ge freeSpace (freeSpaceLimitGBArchive cfg)
          then reclaimDevices cfg rest cleanupPerformed w
          else
            (case reclaimLoop cfg device sections freeSpace cleanupPerformed w of
               None \<Rightarrow> None
             | Some (c, w') \<Rightarrow> reclaimDevices cfg rest c w'))"

definition manageArchiveDiskSpace :: "config \<Rightarrow> world \<Rightarrow> ((error + bool) \<times> world) option" where
  "manageArchiveDiskSpace cfg w =
     reclaimDevices cfg (groupByDevice (archiveDisksSections cfg)) False w"

definition manageArchiveSpace :: "config \<Rightarrow> world \<Rightarrow> ((error + bool) \<times> world) option" where
  "manageArchiveSpace cfg w = manageArchiveDiskSpace cfg w"

text \<open>
  \<open>manageArchive\<close>. Without a release it awaits \<open>manageArchiveSpace\<close> and then returns
  \<open>false\<close>; with one it places the release.
\<close>

definition manageArchive ::
  "config \<Rightarrow> release option \<Rightarrow> world \<Rightarrow> ((error + bool) \<times> world) option" where
  "manageArchive cfg incomingRelease w =
     (case incomingRelease of
        None \<Rightarrow>
          (case manageArchiveSpace cfg w of
             None \<Rightarrow> None
           | Some (Inl e, w') \<Rightarrow> Some (Inl e, w')
           | Some (Inr cleanupPerformed, w') \<Rightarrow> Some (Inr False, w'))
      | Some r \<Rightarrow>
          (case archivePlace cfg r w of (ok, w') \<Rightarrow> Some (Inr ok, w')))"

section \<open>The incoming manager (src/modules/incoming.js)\<close>

text \<open>
  \<open>manageIncoming\<close> from the lookup of the archive section on (source lines 80 to 184),
  with the release, the current \<open>freeSpace\<close> and the world. The probe of the archive device
  is outside every \<open>try\<close>, so its rejection leaves the function as an exception. The
  result of \<open>archive.manageArchive\<close> is not looked at.
\<close>

definition manageIncoming_move ::
  "config \<Rightarrow> disk_section \<Rightarrow> release \<Rightarrow> jsnum \<Rightarrow> world \<Rightarrow> (error + bool) \<times> world" where
  "manageIncoming_move cfg incomingSection oldestRelease freeSpace w =
     (let releasePath = rel_path oldestRelease;
          sz = rel_size oldestRelease;
          name = rel_name oldestRelease;
          releaseSection = rel_section oldestRelease;
          device = sec_device incomingSection
      in case find (\<lambda>a. sec_section a = releaseSection) (archiveDisksSections cfg) of
           Some archiveSection \<Rightarrow>
             (case getFreeSpace w (sec_device archiveSection) of
                Inl e \<Rightarrow> (Inl (ProbeError e), w)
              | Inr archiveFreeSpace \<Rightarrow>
                  if js_lt_rat archiveFreeSpace
                       (of_int sz / 1024 / 1024 + of_int (archiveBufferGB cfg))
                  then (Inr False, w)
                  else
                    let w1 = proc_announce cfg
                               (TSM name (sizeMB sz) freeSpace (sec_path archiveSection)
                                    archiveFreeSpace releaseSection) w
                    in if \<not> debug cfg then
                         (case archivePlace cfg (oldestRelease\<lparr>rel_section := releaseSection\<rparr>) w1 of
                            (moved, w2) \<Rightarrow>
                              (case getFreeSpace w2 device of
                                 Inl e \<Rightarrow> (Inr False, w2)
                               | Inr freeSpace' \<Rightarrow>
                                   if js_ge freeSpace' (freeSpaceLimitGBRace cfg)
                                   then (Inr True, w2)
                                   else (Inr True, w2)))
                       else (Inr True, w1))
         | None \<Rightarrow>
             (let w1 = proc_announce cfg
                         (TSD name (sizeMB sz) freeSpace releaseSection freeSpace releaseSection) w
              in if \<not> debug cfg then
                   (case deleteDirectory releasePath w1 of
                      (Inl e, w2) \<Rightarrow> (Inr False, w2)
                    | (Inr u, w2) \<Rightarrow>
                        (case getFreeSpace w2 device of
                           Inl e \<Rightarrow> (Inr False, w2)
                         | Inr freeSpace' \<Rightarrow>
                             if js_ge freeSpace' (freeSpaceLimitGBRace cfg)
                             then (Inr True, w2)
                             else (Inr True, w2)))
                 else (Inr True, w1)))"

text \<open>
  \<open>manageIncoming\<close>: the first probe (outside every \<open>try\<close>), the threshold, the scan of
  all incoming sections, the handling of an empty release directory (source lines 44 to
  78), and then the part above. After an empty directory was deleted and the free space
  is still below the limit, control runs on into that part with the same release.
\<close>

definition manageIncoming :: "config \<Rightarrow> disk_section \<Rightarrow> world \<Rightarrow> (error + bool) \<times> world" where
  "manageIncoming cfg incomingSection w =
     (let device = sec_device incomingSection
      in case getFreeSpace w device of
           Inl e \<Rightarrow> (Inl (ProbeError e), w)
         | Inr freeSpace \<Rightarrow>
             if js_ge freeSpace (freeSpaceLimitGBRace cfg) then (Inr False, w)
             else
               (case getOldestIncomingRelease (incomingDisksSections cfg) w of
                  None \<Rightarrow> (Inr False, w)
                | Some oldestRelease \<Rightarrow>
                    if isDirectoryEmpty w (rel_path oldestRelease) then
                      (if \<not> debug cfg then
                         (case deleteDirectory (rel_path oldestRelease) w of
                            (Inl e, w1) \<Rightarrow> (Inr False, w1)
                          | (Inr u, w1) \<Rightarrow>
                              (case getFreeSpace w1 device of
                                 Inl e \<Rightarrow> (Inr False, w1)
                               | Inr freeSpace' \<Rightarrow>
                                   if js_ge freeSpace' (freeSpaceLimitGBRace cfg)
                                   then (Inr True, w1)
                                   else manageIncoming_move cfg incomingSection oldestRelease
                                          freeSpace' w1))
                       else manageIncoming_move cfg incomingSection oldestRelease freeSpace w)
                    else manageIncoming_move cfg incomingSection oldestRelease freeSpace w))"

section \<open>Example configurations and worlds\<close>

text \<open>
  What \<open>df -BG\<close> prints for a device with the given \<open>Available\<close> column, and a readable
  directory.
\<close>

definition ex_df_out :: "string \<Rightarrow> exec_result" where
  "ex_df_out avail =
     \<lparr>exec_err = None,
      exec_stdout = ''Filesystem 1G-blocks Used Available Use% Mounted on'' @ [CHR 0x0A]
                    @ ''/dev/sdb1 916G 410G '' @ avail @ '' 48% /mnt'' @ [CHR 0x0A],
      exec_stderr = ''''\<rparr>"

definition ex_dir :: "int \<Rightarrow> dirent list \<Rightarrow> int \<Rightarrow> dir" where
  "ex_dir m es sz = \<lparr>mtimeMs = m, readable = True, entries = es, dsize = sz\<rparr>"

text \<open>
  An archive device with three releases \<open>r1\<close>, \<open>r2\<close>, \<open>r3\<close> (oldest first) and a limit of
  100 GB: 50 GB are free while \<open>r1\<close> exists, 80 GB once it is gone and 120 GB once \<open>r2\<close>
  is gone too.
\<close>

definition ex_archive_section :: disk_section where
  "ex_archive_section =
     \<lparr>sec_path = ''/archive/tv'', sec_device = ''/dev/sdb1'', sec_section = ''tv'',
      sec_dated = False\<rparr>"

definition ex_reclaim_config :: config where
  "ex_reclaim_config =
     \<lparr>incomingDisksSections = [], archiveDisksSections = [ex_archive_section],
      freeSpaceLimitGBRace = 100, freeSpaceLimitGBArchive = 100, archiveBufferGB = 10,
      debug = False, GLLogFile = None\<rparr>"

definition ex_debug_config :: config where
  "ex_debug_config = ex_reclaim_config\<lparr>debug := True\<rparr>"

definition ex_reclaim_fs :: filesys where
  "ex_reclaim_fs =
     [''/archive/tv'' \<mapsto>
        ex_dir 5000 [Dirent ''r1'' True, Dirent ''r2'' True, Dirent ''r3'' True] 0,
      ''/archive/tv/r1'' \<mapsto> ex_dir 1000 [Dirent ''f'' False] 7,
      ''/archive/tv/r2'' \<mapsto> ex_dir 2000 [Dirent ''f'' False] 8,
      ''/archive/tv/r3'' \<mapsto> ex_dir 3000 [Dirent ''f'' False] 9]"

definition ex_reclaim_world :: world where
  "ex_reclaim_world =
     \<lparr>fs = ex_reclaim_fs, now = 100000,
      df = (\<lambda>f device.
              if f ''/archive/tv/r1'' \<noteq> None then ex_df_out ''50G''
              else if f ''/archive/tv/r2'' \<noteq> None then ex_df_out ''80G''
              else ex_df_out ''120G''),
      rclone = (\<lambda>f src dst. (True, f)),
      denied = (\<lambda>p. False),
      issued = []\<rparr>"

definition ex_reclaim_world1 :: world where
  "ex_reclaim_world1 = snd (deleteDirectory ''/archive/tv/r1'' ex_reclaim_world)"

definition ex_reclaim_world2 :: world where
  "ex_reclaim_world2 = snd (deleteDirectory ''/archive/tv/r2'' ex_reclaim_world1)"

text \<open>
  An incoming section labelled \<open>tv\<close> with two releases, and two archive sections: the
  one labelled \<open>tv\<close> has 300 GB free, the one labelled \<open>movies\<close> has 500 GB free.
  \<open>show1\<close> holds 2048 bytes in two entries, \<open>show2\<close> holds one GiB.
\<close>

definition ex_incoming_section :: disk_section where
  "ex_incoming_section =
     \<lparr>sec_path = ''/incoming/tv'', sec_device = ''/dev/sda1'', sec_section = ''tv'',
      sec_dated = False\<rparr>"

definition ex_archive_tv :: disk_section where
  "ex_archive_tv =
     \<lparr>sec_path = ''/archive1/tv'', sec_device = ''/dev/sdb1'', sec_section = ''tv'',
      sec_dated = False\<rparr>"

definition ex_archive_movies :: disk_section where
  "ex_archive_movies =
     \<lparr>sec_path = ''/archive2/movies'', sec_device = ''/dev/sdc1'', sec_section = ''movies'',
      sec_dated = False\<rparr>"

definition ex_place_config :: config where
  "ex_place_config =
     \<lparr>incomingDisksSections = [ex_incoming_section],
      archiveDisksSections = [ex_archive_tv, ex_archive_movies],
      freeSpaceLimitGBRace = 100, freeSpaceLimitGBArchive = 100, archiveBufferGB = 10,
      debug = False, GLLogFile = None\<rparr>"

definition ex_place_fs :: filesys where
  "ex_place_fs =
     [''/incoming/tv'' \<mapsto> ex_dir 9000 [Dirent ''show1'' True, Dirent ''show2'' True] 0,
      ''/incoming/tv/show1'' \<mapsto> ex_dir 1000 [Dirent ''a'' False, Dirent ''b'' False] 2048,
      ''/incoming/tv/show2'' \<mapsto> ex_dir 2000 [Dirent ''a'' False] 1073741824,
      ''/archive1/tv'' \<mapsto> ex_dir 100 [] 0,
      ''/archive2/movies'' \<mapsto> ex_dir 100 [] 0]"

definition ex_place_df :: "filesys \<Rightarrow> string \<Rightarrow> exec_result" where
  "ex_place_df f device =
     (if device = ''/dev/sdb1'' then ex_df_out ''300G''
      else if device = ''/dev/sdc1'' then ex_df_out ''500G''
      else ex_df_out ''50G'')"

text \<open>A copy that exits with status zero and leaves one entry at the destination.\<close>

definition ex_short_copy :: "filesys \<Rightarrow> path \<Rightarrow> path \<Rightarrow> bool \<times> filesys" where
  "ex_short_copy f src dst = (True, f(dst \<mapsto> ex_dir 9999 [Dirent ''a'' False] 1024))"

definition ex_place_world :: world where
  "ex_place_world =
     \<lparr>fs = ex_place_fs, now = 100000, df = ex_place_df, rclone = ex_short_copy,
      denied = (\<lambda>p. False), issued = []\<rparr>"

definition ex_show1 :: release where
  "ex_show1 =
     \<lparr>rel_path = ''/incoming/tv/show1'', rel_name = ''show1'', rel_mtime = 1000,
      rel_size = 2048, rel_section = ''tv''\<rparr>"

definition ex_show2 :: release where
  "ex_show2 =
     \<lparr>rel_path = ''/incoming/tv/show2'', rel_name = ''show2'', rel_mtime = 2000,
      rel_size = 1073741824, rel_section = ''tv''\<rparr>"

definition ex_place_world1 :: world where
  "ex_place_world1 = snd (wipeDestination ''/archive2/movies'' ''show1'' ex_place_world)"

definition ex_place_world2 :: world where
  "ex_place_world2 =
     snd (rcloneSync ex_place_config ''/incoming/tv'' ''show1'' ''/archive2/movies''
            ex_place_world1)"

text \<open>The same world with a source directory that exists but cannot be listed.\<close>

definition ex_unread_world :: world where
  "ex_unread_world =
     ex_place_world
       \<lparr>fs := ex_place_fs
               (''/incoming/tv/show1'' \<mapsto>
                  (ex_dir 1000 [Dirent ''a'' False, Dirent ''b'' False] 2048)
                    \<lparr>readable := False\<rparr>)\<rparr>"

definition ex_unread_world1 :: world where
  "ex_unread_world1 = snd (wipeDestination ''/archive2/movies'' ''show1'' ex_unread_world)"

definition ex_unread_world2 :: world where
  "ex_unread_world2 =
     snd (rcloneSync ex_place_config ''/incoming/tv'' ''show1'' ''/archive2/movies''
            ex_unread_world1)"

text \<open>
  Four incoming sections for the scan: one whose directory does not exist, one with the
  release \<open>a\<close> (modified at 10) beside a plain file, one with the releases \<open>b\<close> and \<open>c\<close>
  (both modified at 5), and an empty one.
\<close>

definition ex_scan_section :: "string \<Rightarrow> disk_section" where
  "ex_scan_section n =
     \<lparr>sec_path = ''/incoming/'' @ n, sec_device = ''/dev/sda1'', sec_section = n,
      sec_dated = False\<rparr>"

definition ex_scan_sections :: "disk_section list" where
  "ex_scan_sections =
     [ex_scan_section ''gone'', ex_scan_section ''s1'', ex_scan_section ''s2'',
      ex_scan_section ''s3'']"

definition ex_scan_world :: world where
  "ex_scan_world =
     \<lparr>fs = [''/incoming/s1'' \<mapsto> ex_dir 100 [Dirent ''a'' True, Dirent ''note.txt'' False] 0,
             ''/incoming/s1/a'' \<mapsto> ex_dir 10 [Dirent ''f'' False] 11,
             ''/incoming/s2'' \<mapsto> ex_dir 100 [Dirent ''b'' True, Dirent ''c'' True] 0,
             ''/incoming/s2/b'' \<mapsto> ex_dir 5 [Dirent ''f'' False] 12,
             ''/incoming/s2/c'' \<mapsto> ex_dir 5 [Dirent ''f'' False] 13,
             ''/incoming/s3'' \<mapsto> ex_dir 100 [] 0],
      now = 100000, df = (\<lambda>f device. ex_df_out ''50G''),
      rclone = (\<lambda>f src dst. (True, f)), denied = (\<lambda>p. False), issued = []\<rparr>"

definition ex_scan_release :: "string \<Rightarrow> string \<Rightarrow> int \<Rightarrow> int \<Rightarrow> release" where
  "ex_scan_release sec n m sz =
     \<lparr>rel_path = ''/incoming/'' @ sec @ ''/'' @ n, rel_name = n, rel_mtime = m,
      rel_size = sz, rel_section = sec\<rparr>"


text \<open>
  A dated archive section at clock reading 200000000 ms: \<open>0412\<close> was modified 23 hours
  ago, \<open>0411\<close> 25 hours ago and \<open>abc\<close> 26 hours ago.
\<close>

definition ex_dated_section :: disk_section where
  "ex_dated_section =
     \<lparr>sec_path = ''/archive/0day'', sec_device = ''/dev/sdb1'', sec_section = ''0day'',
      sec_dated = True\<rparr>"

definition ex_dated_world :: world where
  "ex_dated_world =
     \<lparr>fs = [''/archive/0day'' \<mapsto>
               ex_dir 190000000
                 [Dirent ''0412'' True, Dirent ''0411'' True, Dirent ''abc'' True,
                  Dirent ''readme'' False] 0,
             ''/archive/0day/0412'' \<mapsto> ex_dir 117200000 [Dirent ''f'' False] 21,
             ''/archive/0day/0411'' \<mapsto> ex_dir 110000000 [Dirent ''f'' False] 22,
             ''/archive/0day/abc'' \<mapsto> ex_dir 106400000 [Dirent ''f'' False] 23],
      now = 200000000, df = (\<lambda>f device. ex_df_out ''50G''),
      rclone = (\<lambda>f src dst. (True, f)), denied = (\<lambda>p. False), issued = []\<rparr>"

text \<open>
  The incoming section with an empty release directory \<open>empty1\<close>, older than \<open>show1\<close>.
  The copy tool fails on a missing source. The incoming device has 50 GB free; in
  \<open>ex_empty_world\<close> it has 150 GB free once \<open>empty1\<close> is gone, in \<open>ex_low_world\<close> it stays
  at 50 GB.
\<close>

definition ex_empty_fs :: filesys where
  "ex_empty_fs =
     [''/incoming/tv'' \<mapsto> ex_dir 9000 [Dirent ''empty1'' True, Dirent ''show1'' True] 0,
      ''/incoming/tv/empty1'' \<mapsto> ex_dir 500 [] 0,
      ''/incoming/tv/show1'' \<mapsto> ex_dir 1000 [Dirent ''a'' False, Dirent ''b'' False] 2048,
      ''/archive1/tv'' \<mapsto> ex_dir 100 [] 0,
      ''/archive2/movies'' \<mapsto> ex_dir 100 [] 0]"

definition ex_copy_tool :: "filesys \<Rightarrow> path \<Rightarrow> path \<Rightarrow> bool \<times> filesys" where
  "ex_copy_tool f src dst =
     (case f src of
        None \<Rightarrow> (False, f)
      | Some d \<Rightarrow> (True, f(dst \<mapsto> d)))"

definition ex_empty_df :: "filesys \<Rightarrow> string \<Rightarrow> exec_result" where
  "ex_empty_df f device =
     (if device = ''/dev/sdb1'' then ex_df_out ''300G''
      else if device = ''/dev/sdc1'' then ex_df_out ''500G''
      else if f ''/incoming/tv/empty1'' \<noteq> None then ex_df_out ''50G''
      else ex_df_out ''150G'')"

definition ex_empty_world :: world where
  "ex_empty_world =
     \<lparr>fs = ex_empty_fs, now = 100000, df = ex_empty_df, rclone = ex_copy_tool,
      denied = (\<lambda>p. False), issued = []\<rparr>"

definition ex_low_world :: world where
  "ex_low_world = ex_empty_world\<lparr>df := ex_place_df\<rparr>"

definition ex_empty1 :: release where
  "ex_empty1 =
     \<lparr>rel_path = ''/incoming/tv/empty1'', rel_name = ''empty1'', rel_mtime = 500,
      rel_size = 0, rel_section = ''tv''\<rparr>"

definition ex_place_debug_config :: config where
  "ex_place_debug_config = ex_place_config\<lparr>debug := True\<rparr>"

text \<open>The same configuration with no archive section at all.\<close>

definition ex_no_archive_config :: config where
  "ex_no_archive_config = ex_place_config\<lparr>archiveDisksSections := []\<rparr>"

section \<open>The probe\<close>

text \<open>
  What the probe does reject: a failed command, output on the error stream, and fewer
  than two lines of output.
\<close>

lemma getFreeSpace_cb_rejects:
  "exec_err r \<noteq> None \<Longrightarrow> getFreeSpace_cb r = Inl DfFailed"
  "exec_stderr r \<noteq> [] \<Longrightarrow> getFreeSpace_cb r = Inl DfFailed"
  "exec_err r = None \<Longrightarrow> exec_stderr r = [] \<Longrightarrow>
     length (split_char (CHR 0x0A) (trim (exec_stdout r))) < 2 \<Longrightarrow>
     getFreeSpace_cb r = Inl UnexpectedOutput"
  by (simp_all add: getFreeSpace_cb_def)

text \<open>A well-formed line gives its fourth column; a signed column gives a negative number.\<close>

lemma getFreeSpace_cb_example: "getFreeSpace_cb (ex_df_out ''460G'') = Inr (Num 460)"
  by code_simp

lemma getFreeSpace_cb_negative: "getFreeSpace_cb (ex_df_out ''-5G'') = Inr (Num (- 5))"
  by code_simp

text \<open>
  C9. The claim: the probe returns a non-negative integer or fails, and unparseable output
  always yields an error, never a non-numeric value. On the output of \<open>df\<close> for a file
  system whose sizes are unknown (the columns hold a dash), the exit status is zero, there
  are two lines and four fields, so no check rejects, and \<open>parseInt\<close> of a dash is
  \<open>NaN\<close>: the promise resolves with \<open>NaN\<close>.
\<close>

theorem getFreeSpace_resolves_NaN:
  "getFreeSpace_cb
     \<lparr>exec_err = None,
      exec_stdout = ''Filesystem 1G-blocks Used Available Use% Mounted on'' @ [CHR 0x0A]
                    @ ''/dev/sdb1 - - - - /mnt'' @ [CHR 0x0A],
      exec_stderr = ''''\<rparr>
   = Inr NaN"
  by code_simp

section \<open>The scan for the oldest release\<close>

text \<open>
  The head of the stably sorted list is the first element with the least key.
\<close>

lemma sort_key_head:
  "(case sort_key rel_mtime xs of [] \<Rightarrow> None | y # ys \<Rightarrow> Some y) = earliest xs"
proof (induction xs)
  case Nil
  then show ?case by simp
next
  case (Cons x xs)
  show ?case
  proof (cases "sort_key rel_mtime xs")
    case Nil
    with Cons show ?thesis by simp
  next
    case (Cons y ys)
    with Cons.IH show ?thesis by (auto split: option.splits)
  qed
qed

text \<open>
  Taking the earliest of two lists in turn, the first list winning ties, is taking the
  earliest of their concatenation; this is the comparison the loop makes between the
  running release and a section's oldest.
\<close>

lemma earliest_Cons:
  "earliest (r # rs) =
     (case earliest rs of
        None \<Rightarrow> Some r
      | Some r' \<Rightarrow> if rel_mtime r' < rel_mtime r then Some r' else Some r)"
  by (auto split: option.splits)

lemma earliest_append:
  "earliest (xs @ ys) =
     (case earliest xs of
        None \<Rightarrow> earliest ys
      | Some g \<Rightarrow>
          (case earliest ys of
             None \<Rightarrow> Some g
           | Some e \<Rightarrow> if rel_mtime e < rel_mtime g then Some e else Some g))"
proof (induction xs)
  case Nil
  then show ?case by (simp split: option.splits)
next
  case (Cons x xs)
  then show ?case by (auto split: option.splits)
qed

lemma earliest_None: "earliest xs = None \<longleftrightarrow> xs = []"
  by (cases xs) (auto split: option.splits)

lemma findOldestLoop_earliest:
  "findOldestLoop w sections g =
     (case g of
        None \<Rightarrow> earliest (candidates w sections)
      | Some gr \<Rightarrow>
          (case earliest (candidates w sections) of
             None \<Rightarrow> Some gr
           | Some e \<Rightarrow> if rel_mtime e < rel_mtime gr then Some e else Some gr))"
proof (induction sections arbitrary: g)
  case Nil
  then show ?case by (simp add: candidates_def split: option.splits)
next
  case (Cons s ss)
  have c: "candidates w (s # ss) = validDirectories w s @ candidates w ss"
    by (simp add: candidates_def)
  show ?case
  proof (cases "readdir w (sec_path s)")
    case None
    then have "validDirectories w s = []" by (simp add: validDirectories_def)
    with c have c': "candidates w (s # ss) = candidates w ss" by simp
    from None Cons.IH[of g] show ?thesis unfolding c' by simp
  next
    case (Some es)
    then have v: "validDirectories w s
                  = List.map_filter (directoryWithStats w s) (sectionDirectories s es)"
      by (simp add: validDirectories_def)
    show ?thesis
    proof (cases "sectionDirectories s es = []")
      case True
      with v have "validDirectories w s = []" by (simp add: map_filter_simps)
      with c have c': "candidates w (s # ss) = candidates w ss" by simp
      from Some True Cons.IH[of g] show ?thesis unfolding c' by simp
    next
      case False
      show ?thesis
      proof (cases "sort_key rel_mtime (validDirectories w s)")
        case Nil
        then have "validDirectories w s = []"
          by (metis length_sort list.size(3) length_0_conv)
        with c have c': "candidates w (s # ss) = candidates w ss" by simp
        from Some False Nil v Cons.IH[of g] show ?thesis unfolding c' by simp
      next
        case (Cons y ys)
        with sort_key_head[of "validDirectories w s"]
        have e: "earliest (validDirectories w s) = Some y" by simp
        have y: "sort_key rel_mtime
                   (List.map_filter (directoryWithStats w s) (sectionDirectories s es)) = y # ys"
          using Cons v by simp
        show ?thesis
          unfolding c earliest_append e
          using Some False y Cons.IH
          by (auto split: option.splits)
      qed
    qed
  qed
qed


text \<open>What \<open>earliest\<close> returns, by position.\<close>

lemma earliest_Some:
  "earliest xs = Some r \<Longrightarrow>
     \<exists>i < length xs. xs ! i = r
        \<and> (\<forall>j < length xs. rel_mtime r \<le> rel_mtime (xs ! j))
        \<and> (\<forall>j < i. rel_mtime r < rel_mtime (xs ! j))"
proof (induction xs arbitrary: r)
  case Nil
  then show ?case by simp
next
  case (Cons x xs)
  show ?case
  proof (cases "earliest xs")
    case None
    then have "xs = []" by (simp add: earliest_None)
    with Cons.prems show ?thesis by simp
  next
    case (Some r')
    from Cons.IH[OF Some] obtain i where i: "i < length xs" "xs ! i = r'"
      "\<forall>j < length xs. rel_mtime r' \<le> rel_mtime (xs ! j)"
      "\<forall>j < i. rel_mtime r' < rel_mtime (xs ! j)"
      by blast
    show ?thesis
    proof (cases "rel_mtime x \<le> rel_mtime r'")
      case True
      with Some Cons.prems have r: "r = x" by simp
      have "\<forall>j < length (x # xs). rel_mtime r \<le> rel_mtime ((x # xs) ! j)"
      proof (intro allI impI)
        fix j assume "j < length (x # xs)"
        then show "rel_mtime r \<le> rel_mtime ((x # xs) ! j)"
          using r True i(3) by (cases j) (auto intro: order_trans)
      qed
      with r have "0 < length (x # xs) \<and> (x # xs) ! 0 = r
        \<and> (\<forall>j < length (x # xs). rel_mtime r \<le> rel_mtime ((x # xs) ! j))
        \<and> (\<forall>j < 0. rel_mtime r < rel_mtime ((x # xs) ! j))"
        by simp
      then show ?thesis by blast
    next
      case False
      with Some Cons.prems have r: "r = r'" by simp
      have a: "\<forall>j < length (x # xs). rel_mtime r \<le> rel_mtime ((x # xs) ! j)"
      proof (intro allI impI)
        fix j assume "j < length (x # xs)"
        then show "rel_mtime r \<le> rel_mtime ((x # xs) ! j)"
          using r False i(3) by (cases j) auto
      qed
      have b: "\<forall>j < Suc i. rel_mtime r < rel_mtime ((x # xs) ! j)"
      proof (intro allI impI)
        fix j assume "j < Suc i"
        then show "rel_mtime r < rel_mtime ((x # xs) ! j)"
          using r False i(4) by (cases j) auto
      qed
      from i r a b have "Suc i < length (x # xs) \<and> (x # xs) ! Suc i = r
        \<and> (\<forall>j < length (x # xs). rel_mtime r \<le> rel_mtime ((x # xs) ! j))
        \<and> (\<forall>j < Suc i. rel_mtime r < rel_mtime ((x # xs) ! j))"
        by simp
      then show ?thesis by blast
    qed
  qed
qed

lemma findOldestDirectory_is_earliest:
  "findOldestDirectory sections w = earliest (candidates w sections)"
  by (simp add: findOldestDirectory_def findOldestLoop_earliest)

lemma candidates_Nil: "candidates w sections = [] \<longleftrightarrow> (\<forall>s \<in> set sections. validDirectories w s = [])"
  by (simp add: candidates_def)

lemma candidates_readable:
  "candidates w (filter (\<lambda>s. readdir w (sec_path s) \<noteq> None) sections) = candidates w sections"
  by (induction sections) (auto simp: candidates_def validDirectories_def)

text \<open>
  C6. For every list of sections, the scan returns nothing exactly when every section has
  no eligible directory; a release it returns is an eligible directory of some section,
  no eligible directory has an earlier modification time, and every eligible directory
  before it (in section order, then listing order) has a strictly later one, so the
  first seen wins ties. A section that cannot be listed has no eligible directory and is
  skipped: the scan over all sections equals the scan over those that can be listed.
\<close>

theorem findOldestDirectory_earliest_first_seen:
  "(findOldestDirectory sections w = None
      \<longleftrightarrow> (\<forall>s \<in> set sections. validDirectories w s = []))
   \<and> (\<forall>r. findOldestDirectory sections w = Some r \<longrightarrow>
         (\<exists>i < length (candidates w sections). candidates w sections ! i = r
            \<and> (\<forall>j < length (candidates w sections).
                  rel_mtime r \<le> rel_mtime (candidates w sections ! j))
            \<and> (\<forall>j < i. rel_mtime r < rel_mtime (candidates w sections ! j))))
   \<and> findOldestDirectory sections w
       = findOldestDirectory (filter (\<lambda>s. readdir w (sec_path s) \<noteq> None) sections) w
   \<and> (\<forall>s \<in> set sections. readdir w (sec_path s) = None \<longrightarrow> validDirectories w s = [])"
proof (intro conjI allI impI ballI)
  show "findOldestDirectory sections w = None
          \<longleftrightarrow> (\<forall>s \<in> set sections. validDirectories w s = [])"
    by (simp add: findOldestDirectory_is_earliest earliest_None candidates_Nil)
next
  fix r assume "findOldestDirectory sections w = Some r"
  then have "earliest (candidates w sections) = Some r"
    by (simp add: findOldestDirectory_is_earliest)
  from earliest_Some[OF this]
  show "\<exists>i < length (candidates w sections). candidates w sections ! i = r
            \<and> (\<forall>j < length (candidates w sections).
                  rel_mtime r \<le> rel_mtime (candidates w sections ! j))
            \<and> (\<forall>j < i. rel_mtime r < rel_mtime (candidates w sections ! j))" .
next
  show "findOldestDirectory sections w
       = findOldestDirectory (filter (\<lambda>s. readdir w (sec_path s) \<noteq> None) sections) w"
    by (simp only: findOldestDirectory_is_earliest candidates_readable)
next
  fix s :: disk_section
  assume "s \<in> set sections" and "readdir w (sec_path s) = None"
  then show "validDirectories w s = []" by (simp add: validDirectories_def)
qed

text \<open>
  The example: the first section cannot be listed, \<open>a\<close> is at 10, \<open>b\<close> and \<open>c\<close> are both
  at 5; the scan returns \<open>b\<close>.
\<close>

lemma ex_scan_candidates:
  "candidates ex_scan_world ex_scan_sections =
     [ex_scan_release ''s1'' ''a'' 10 11, ex_scan_release ''s2'' ''b'' 5 12,
      ex_scan_release ''s2'' ''c'' 5 13]"
  by code_simp

lemma ex_scan_oldest:
  "findOldestDirectory ex_scan_sections ex_scan_world = Some (ex_scan_release ''s2'' ''b'' 5 12)"
  by code_simp

lemma ex_scan_none:
  "findOldestDirectory [ex_scan_section ''gone'', ex_scan_section ''s3''] ex_scan_world = None"
  by code_simp

theorem findOldestDirectory_earliest_first_seen_witness:
  "findOldestDirectory ex_scan_sections ex_scan_world = Some (ex_scan_release ''s2'' ''b'' 5 12)
   \<and> candidates ex_scan_world ex_scan_sections =
       [ex_scan_release ''s1'' ''a'' 10 11, ex_scan_release ''s2'' ''b'' 5 12,
        ex_scan_release ''s2'' ''c'' 5 13]
   \<and> (\<exists>i < length (candidates ex_scan_world ex_scan_sections).
         candidates ex_scan_world ex_scan_sections ! i = ex_scan_release ''s2'' ''b'' 5 12
         \<and> (\<forall>j < length (candidates ex_scan_world ex_scan_sections).
               rel_mtime (ex_scan_release ''s2'' ''b'' 5 12)
                 \<le> rel_mtime (candidates ex_scan_world ex_scan_sections ! j))
         \<and> (\<forall>j < i. rel_mtime (ex_scan_release ''s2'' ''b'' 5 12)
                        < rel_mtime (candidates ex_scan_world ex_scan_sections ! j)))
   \<and> findOldestDirectory [ex_scan_section ''gone'', ex_scan_section ''s3''] ex_scan_world = None
   \<and> validDirectories ex_scan_world (ex_scan_section ''gone'') = []
   \<and> validDirectories ex_scan_world (ex_scan_section ''s3'') = []"
proof -
  from findOldestDirectory_earliest_first_seen[of ex_scan_sections ex_scan_world] ex_scan_oldest
  have a: "\<exists>i < length (candidates ex_scan_world ex_scan_sections).
         candidates ex_scan_world ex_scan_sections ! i = ex_scan_release ''s2'' ''b'' 5 12
         \<and> (\<forall>j < length (candidates ex_scan_world ex_scan_sections).
               rel_mtime (ex_scan_release ''s2'' ''b'' 5 12)
                 \<le> rel_mtime (candidates ex_scan_world ex_scan_sections ! j))
         \<and> (\<forall>j < i. rel_mtime (ex_scan_release ''s2'' ''b'' 5 12)
                        < rel_mtime (candidates ex_scan_world ex_scan_sections ! j))"
    by blast
  from findOldestDirectory_earliest_first_seen
         [of "[ex_scan_section ''gone'', ex_scan_section ''s3'']" ex_scan_world] ex_scan_none
  have b: "validDirectories ex_scan_world (ex_scan_section ''gone'') = []
           \<and> validDirectories ex_scan_world (ex_scan_section ''s3'') = []"
    by simp
  from a b ex_scan_oldest ex_scan_candidates ex_scan_none show ?thesis by blast
qed

section \<open>Dated sections\<close>

lemma dated_valid_names:
  assumes "sec_dated s"
  shows "map rel_name (List.map_filter (directoryWithStats w s) (sectionDirectories s es))
         = map dirent_name
             (filter (\<lambda>e. isDirectory e
                          \<and> (case stat w (path_join (sec_path s) (dirent_name e)) of
                                None \<Rightarrow> False
                              | Some m \<Rightarrow> now w - m > 24 * 60 * 60 * 1000)) es)"
  using assms
  by (induction es)
     (auto simp: sectionDirectories_def directoryWithStats_def map_filter_simps
                 isOlderThanOneDay_def oneDayInMs_def split: option.splits)

text \<open>
  C4, as the scan does it. In a section whose \<open>dated\<close> flag is set, the candidates are the
  immediate subdirectories, whatever their names, whose \<open>stat\<close> succeeds and whose
  modification time lies more than 24 hours before the clock reading, in listing order.
  No name pattern is applied.
\<close>

theorem dated_section_keeps_day_old_directories:
  assumes "sec_dated s" and "readdir w (sec_path s) = Some es"
  shows "map rel_name (validDirectories w s)
         = map dirent_name
             (filter (\<lambda>e. isDirectory e
                          \<and> (case stat w (path_join (sec_path s) (dirent_name e)) of
                                None \<Rightarrow> False
                              | Some m \<Rightarrow> now w - m > 24 * 60 * 60 * 1000)) es)"
  using assms by (simp add: validDirectories_def dated_valid_names)

text \<open>
  The example: the directory modified 23 hours ago is dropped, the ones modified 25 and 26
  hours ago are kept.
\<close>

lemma ex_dated_listing:
  "readdir ex_dated_world (sec_path ex_dated_section)
     = Some [Dirent ''0412'' True, Dirent ''0411'' True, Dirent ''abc'' True,
             Dirent ''readme'' False]"
  by code_simp

lemma ex_dated_flag: "sec_dated ex_dated_section"
  by (simp add: ex_dated_section_def)

lemma ex_dated_kept:
  "map dirent_name
     (filter (\<lambda>e. isDirectory e
                  \<and> (case stat ex_dated_world (path_join (sec_path ex_dated_section) (dirent_name e)) of
                        None \<Rightarrow> False
                      | Some m \<Rightarrow> now ex_dated_world - m > 24 * 60 * 60 * 1000))
        [Dirent ''0412'' True, Dirent ''0411'' True, Dirent ''abc'' True,
         Dirent ''readme'' False])
   = [''0411'', ''abc'']"
  by code_simp

theorem dated_section_keeps_day_old_directories_witness:
  "sec_dated ex_dated_section
   \<and> readdir ex_dated_world (sec_path ex_dated_section)
       = Some [Dirent ''0412'' True, Dirent ''0411'' True, Dirent ''abc'' True,
               Dirent ''readme'' False]
   \<and> map rel_name (validDirectories ex_dated_world ex_dated_section) = [''0411'', ''abc'']"
  using dated_section_keeps_day_old_directories[OF ex_dated_flag ex_dated_listing]
        ex_dated_flag ex_dated_listing ex_dated_kept
  by simp

text \<open>
  C4 as claimed fails: the claim keeps only directories with purely numeric names in a
  dated section. The scan of the dated example section returns \<open>abc\<close>.
\<close>

theorem dated_scan_returns_non_numeric_name:
  "sec_dated ex_dated_section
   \<and> \<not> numericName ''abc''
   \<and> findOldestDirectory [ex_dated_section] ex_dated_world
       = Some \<lparr>rel_path = ''/archive/0day/abc'', rel_name = ''abc'', rel_mtime = 106400000,
                rel_size = 23, rel_section = ''0day''\<rparr>"
  by code_simp

section \<open>Placing a release\<close>

text \<open>
  What the loop over the archive sections returns: the running maximum never falls, every
  probed integer is at most the result, and either nothing was taken, or the section
  returned is the first one whose probe equals the result.
\<close>

lemma bestSectionLoop_char:
  "bestSectionLoop w xs (b, m) = (b', m') \<Longrightarrow>
     m \<le> m' \<and>
     (\<forall>j < length xs. \<forall>f. getFreeSpace w (sec_device (xs ! j)) = Inr (Num f) \<longrightarrow> f \<le> m') \<and>
     ((b' = b \<and> m' = m) \<or>
      (\<exists>i < length xs. b' = Some (xs ! i) \<and> getFreeSpace w (sec_device (xs ! i)) = Inr (Num m')
          \<and> m < m'
          \<and> (\<forall>j < i. \<forall>f. getFreeSpace w (sec_device (xs ! j)) = Inr (Num f) \<longrightarrow> f < m')))"
proof (induction xs arbitrary: b m)
  case Nil
  then show ?case by simp
next
  case (Cons s ss)
  let ?p = "\<lambda>j. getFreeSpace w (sec_device ((s # ss) ! j))"
  have skip: ?case
    if r: "bestSectionLoop w ss (b, m) = (b', m')"
      and here: "\<And>f. getFreeSpace w (sec_device s) = Inr (Num f) \<Longrightarrow> f \<le> m"
  proof -
    from Cons.IH[OF r] have mm: "m \<le> m'"
      and all: "\<forall>j < length ss. \<forall>f. getFreeSpace w (sec_device (ss ! j)) = Inr (Num f) \<longrightarrow> f \<le> m'"
      and alt: "(b' = b \<and> m' = m) \<or>
        (\<exists>i < length ss. b' = Some (ss ! i) \<and> getFreeSpace w (sec_device (ss ! i)) = Inr (Num m')
          \<and> m < m'
          \<and> (\<forall>j < i. \<forall>f. getFreeSpace w (sec_device (ss ! j)) = Inr (Num f) \<longrightarrow> f < m'))"
      by blast+
    have all': "\<forall>j < length (s # ss). \<forall>f. ?p j = Inr (Num f) \<longrightarrow> f \<le> m'"
    proof (intro allI impI)
      fix j f assume j: "j < length (s # ss)" and f: "?p j = Inr (Num f)"
      show "f \<le> m'"
      proof (cases j)
        case 0
        with f here mm show ?thesis by fastforce
      next
        case (Suc k)
        with j f all show ?thesis by simp
      qed
    qed
    from alt have alt': "(b' = b \<and> m' = m) \<or>
        (\<exists>i < length (s # ss). b' = Some ((s # ss) ! i) \<and> ?p i = Inr (Num m')
          \<and> m < m' \<and> (\<forall>j < i. \<forall>f. ?p j = Inr (Num f) \<longrightarrow> f < m'))"
    proof
      assume "b' = b \<and> m' = m"
      then show ?thesis by simp
    next
      assume "\<exists>i < length ss. b' = Some (ss ! i) \<and> getFreeSpace w (sec_device (ss ! i)) = Inr (Num m')
          \<and> m < m'
          \<and> (\<forall>j < i. \<forall>f. getFreeSpace w (sec_device (ss ! j)) = Inr (Num f) \<longrightarrow> f < m')"
      then obtain i where i: "i < length ss" "b' = Some (ss ! i)"
        "getFreeSpace w (sec_device (ss ! i)) = Inr (Num m')" "m < m'"
        "\<forall>j < i. \<forall>f. getFreeSpace w (sec_device (ss ! j)) = Inr (Num f) \<longrightarrow> f < m'"
        by blast
      have "\<forall>j < Suc i. \<forall>f. ?p j = Inr (Num f) \<longrightarrow> f < m'"
      proof (intro allI impI)
        fix j f assume j: "j < Suc i" and f: "?p j = Inr (Num f)"
        show "f < m'"
        proof (cases j)
          case 0
          with f here i(4) show ?thesis by fastforce
        next
          case (Suc k)
          with j f i(5) show ?thesis by simp
        qed
      qed
      with i have "Suc i < length (s # ss) \<and> b' = Some ((s # ss) ! Suc i) \<and> ?p (Suc i) = Inr (Num m')
          \<and> m < m' \<and> (\<forall>j < Suc i. \<forall>f. ?p j = Inr (Num f) \<longrightarrow> f < m')"
        by simp
      then show ?thesis by blast
    qed
    from mm all' alt' show ?thesis by blast
  qed
  show ?case
  proof (cases "getFreeSpace w (sec_device s)")
    case (Inl e)
    with Cons.prems have r: "bestSectionLoop w ss (b, m) = (b', m')" by simp
    show ?thesis by (rule skip[OF r]) (simp add: Inl)
  next
    case (Inr v)
    show ?thesis
    proof (cases v)
      case NaN
      with Inr Cons.prems have r: "bestSectionLoop w ss (b, m) = (b', m')" by simp
      show ?thesis by (rule skip[OF r]) (simp add: Inr NaN)
    next
      case (Num n)
      show ?thesis
      proof (cases "n > m")
        case False
        with Inr Num Cons.prems have r: "bestSectionLoop w ss (b, m) = (b', m')" by simp
        show ?thesis by (rule skip[OF r]) (use False in \<open>simp add: Inr Num\<close>)
      next
        case True
        with Inr Num Cons.prems have r: "bestSectionLoop w ss (Some s, n) = (b', m')" by simp
        from Cons.IH[OF r] have mm: "n \<le> m'"
          and all: "\<forall>j < length ss. \<forall>f. getFreeSpace w (sec_device (ss ! j)) = Inr (Num f) \<longrightarrow> f \<le> m'"
          and alt: "(b' = Some s \<and> m' = n) \<or>
            (\<exists>i < length ss. b' = Some (ss ! i) \<and> getFreeSpace w (sec_device (ss ! i)) = Inr (Num m')
              \<and> n < m'
              \<and> (\<forall>j < i. \<forall>f. getFreeSpace w (sec_device (ss ! j)) = Inr (Num f) \<longrightarrow> f < m'))"
          by blast+
        have all': "\<forall>j < length (s # ss). \<forall>f. ?p j = Inr (Num f) \<longrightarrow> f \<le> m'"
        proof (intro allI impI)
          fix j f assume j: "j < length (s # ss)" and f: "?p j = Inr (Num f)"
          show "f \<le> m'"
          proof (cases j)
            case 0
            with f Inr Num mm show ?thesis by simp
          next
            case (Suc k)
            with j f all show ?thesis by simp
          qed
        qed
        from alt have "\<exists>i < length (s # ss). b' = Some ((s # ss) ! i) \<and> ?p i = Inr (Num m')
              \<and> m < m' \<and> (\<forall>j < i. \<forall>f. ?p j = Inr (Num f) \<longrightarrow> f < m')"
        proof
          assume "b' = Some s \<and> m' = n"
          with Inr Num True have "0 < length (s # ss) \<and> b' = Some ((s # ss) ! 0) \<and> ?p 0 = Inr (Num m')
              \<and> m < m' \<and> (\<forall>j < 0. \<forall>f. ?p j = Inr (Num f) \<longrightarrow> f < m')"
            by simp
          then show ?thesis by blast
        next
          assume "\<exists>i < length ss. b' = Some (ss ! i) \<and> getFreeSpace w (sec_device (ss ! i)) = Inr (Num m')
              \<and> n < m'
              \<and> (\<forall>j < i. \<forall>f. getFreeSpace w (sec_device (ss ! j)) = Inr (Num f) \<longrightarrow> f < m')"
          then obtain i where i: "i < length ss" "b' = Some (ss ! i)"
            "getFreeSpace w (sec_device (ss ! i)) = Inr (Num m')" "n < m'"
            "\<forall>j < i. \<forall>f. getFreeSpace w (sec_device (ss ! j)) = Inr (Num f) \<longrightarrow> f < m'"
            by blast
          have "\<forall>j < Suc i. \<forall>f. ?p j = Inr (Num f) \<longrightarrow> f < m'"
          proof (intro allI impI)
            fix j f assume j: "j < Suc i" and f: "?p j = Inr (Num f)"
            show "f < m'"
            proof (cases j)
              case 0
              with f Inr Num i(4) show ?thesis by simp
            next
              case (Suc k)
              with j f i(5) show ?thesis by simp
            qed
          qed
          with i True have "Suc i < length (s # ss) \<and> b' = Some ((s # ss) ! Suc i) \<and> ?p (Suc i) = Inr (Num m')
              \<and> m < m' \<and> (\<forall>j < Suc i. \<forall>f. ?p j = Inr (Num f) \<longrightarrow> f < m')"
            by simp
          then show ?thesis by blast
        qed
        with mm all' True show ?thesis by simp
      qed
    qed
  qed
qed

text \<open>What a successful target selection says about the run up to the size check.\<close>

lemma archiveTarget_SomeD:
  assumes "archiveTarget cfg rel w = Some (inc, best)"
  shows "find (\<lambda>s. rel_path rel = path_join (sec_path s) (rel_name rel)) (incomingDisksSections cfg) = Some inc"
    and "filter (\<lambda>s. sec_section s = sec_section inc) (archiveDisksSections cfg) \<noteq> []"
    and "\<exists>most. bestSectionLoop w (archiveDisksSections cfg) (None, 0) = (Some best, most)
           \<and> \<not> (of_int most :: rat) < of_int (rel_size rel) / 1024 + of_int (archiveBufferGB cfg)"
  using assms
  by (auto simp: archiveTarget_def split: option.splits if_splits prod.splits)

text \<open>The commands each step of the transfer issues.\<close>

lemma wipeDestination_issued:
  "wipeDestination p n w = (r, w1) \<Longrightarrow> issued w1 = issued w @ [RmRf (path_join p n)]"
  by (auto simp: wipeDestination_def issue_def Let_def split: if_splits)

lemma rcloneSync_issued:
  "rcloneSync cfg sp n dp w = (r, w1) \<Longrightarrow> \<not> debug cfg \<Longrightarrow>
     issued w1 = issued w @ [RcloneCopy (path_join sp n) (path_join dp n)]"
  by (auto simp: rcloneSync_def issue_def Let_def split: if_splits)

lemma setTimestamp_issued:
  "setTimestamp cfg p t w = (r, w1) \<Longrightarrow> \<not> debug cfg \<Longrightarrow>
     issued w1 = issued w @ [Touch t p]"
  by (auto simp: setTimestamp_def issue_def Let_def split: if_splits option.splits)

lemma archiveTransfer_first_command:
  assumes "\<not> debug cfg"
  shows "\<exists>rest. issued (snd (archiveTransfer cfg rel inc best w))
            = issued w @ RmRf (path_join (sec_path best) (rel_name rel)) # rest"
  using assms
  by (auto simp: archiveTransfer_def Let_def
           split: prod.splits sum.splits option.splits
           dest!: wipeDestination_issued rcloneSync_issued setTimestamp_issued)

text \<open>
  C7. Whenever \<open>manageArchive\<close> gets as far as a destination for a release, some archive
  section carries the label of the release's incoming section, and the destination is the
  first section in configuration order whose probed free space is the greatest among all
  archive sections, whatever its own label; outside debug mode the first command issued
  is the removal of the release's name under that section. The probe of every section
  enters the comparison; a rejected or non-numeric probe is skipped.
\<close>

theorem manageArchive_destination_most_free:
  assumes "archiveTarget cfg rel w = Some (inc, best)"
  shows "(\<exists>i most. i < length (archiveDisksSections cfg)
            \<and> archiveDisksSections cfg ! i = best
            \<and> getFreeSpace w (sec_device best) = Inr (Num most)
            \<and> (\<forall>j < length (archiveDisksSections cfg). \<forall>f.
                  getFreeSpace w (sec_device (archiveDisksSections cfg ! j)) = Inr (Num f)
                  \<longrightarrow> f \<le> most)
            \<and> (\<forall>j < i. \<forall>f.
                  getFreeSpace w (sec_device (archiveDisksSections cfg ! j)) = Inr (Num f)
                  \<longrightarrow> f < most))
       \<and> (\<exists>j < length (archiveDisksSections cfg).
             sec_section (archiveDisksSections cfg ! j) = sec_section inc)
       \<and> (debug cfg \<or> (\<exists>rest. issued (snd (archivePlace cfg rel w))
              = issued w @ RmRf (path_join (sec_path best) (rel_name rel)) # rest))"
proof -
  let ?A = "archiveDisksSections cfg"
  from archiveTarget_SomeD(3)[OF assms] obtain most where
    loop: "bestSectionLoop w ?A (None, 0) = (Some best, most)" by blast
  from bestSectionLoop_char[OF loop] obtain i where
    i: "i < length ?A" "Some best = Some (?A ! i)"
       "getFreeSpace w (sec_device (?A ! i)) = Inr (Num most)"
       "\<forall>j < i. \<forall>f. getFreeSpace w (sec_device (?A ! j)) = Inr (Num f) \<longrightarrow> f < most"
    and all: "\<forall>j < length ?A. \<forall>f. getFreeSpace w (sec_device (?A ! j)) = Inr (Num f) \<longrightarrow> f \<le> most"
    by auto
  from i all have first: "\<exists>i most. i < length ?A \<and> ?A ! i = best
            \<and> getFreeSpace w (sec_device best) = Inr (Num most)
            \<and> (\<forall>j < length ?A. \<forall>f. getFreeSpace w (sec_device (?A ! j)) = Inr (Num f) \<longrightarrow> f \<le> most)
            \<and> (\<forall>j < i. \<forall>f. getFreeSpace w (sec_device (?A ! j)) = Inr (Num f) \<longrightarrow> f < most)"
    by auto
  from archiveTarget_SomeD(2)[OF assms]
  obtain s where "s \<in> set ?A" "sec_section s = sec_section inc"
    by (auto simp: filter_empty_conv)
  then have label: "\<exists>j < length ?A. sec_section (?A ! j) = sec_section inc"
    by (auto simp: in_set_conv_nth)
  have dest: "debug cfg \<or> (\<exists>rest. issued (snd (archivePlace cfg rel w))
              = issued w @ RmRf (path_join (sec_path best) (rel_name rel)) # rest)"
    using archiveTransfer_first_command[of cfg rel inc best w] assms
    by (auto simp: archivePlace_def)
  from first label dest show ?thesis by blast
qed


text \<open>The example: the section labelled \<open>movies\<close> has the most free space.\<close>

lemma ex_place_probe_tv: "getFreeSpace ex_place_world ''/dev/sdb1'' = Inr (Num 300)"
  by code_simp

lemma ex_place_probe_movies: "getFreeSpace ex_place_world ''/dev/sdc1'' = Inr (Num 500)"
  by code_simp

lemma ex_place_best:
  "bestSectionLoop ex_place_world [ex_archive_tv, ex_archive_movies] (None, 0)
     = (Some ex_archive_movies, 500)"
proof -
  have "sec_device ex_archive_tv = ''/dev/sdb1''" "sec_device ex_archive_movies = ''/dev/sdc1''"
    by (simp_all add: ex_archive_tv_def ex_archive_movies_def)
  then show ?thesis by (simp add: ex_place_probe_tv ex_place_probe_movies)
qed

lemma ex_place_config_simps:
  "incomingDisksSections ex_place_config = [ex_incoming_section]"
  "archiveDisksSections ex_place_config = [ex_archive_tv, ex_archive_movies]"
  "archiveBufferGB ex_place_config = 10"
  "\<not> debug ex_place_config"
  by (simp_all add: ex_place_config_def)

lemma ex_place_target:
  "archiveTarget ex_place_config ex_show1 ex_place_world
     = Some (ex_incoming_section, ex_archive_movies)"
proof -
  have s: "rel_path ex_show1 = path_join (sec_path ex_incoming_section) (rel_name ex_show1)"
    "sec_section ex_archive_tv = sec_section ex_incoming_section"
    "rel_size ex_show1 = 2048"
    by (simp_all add: ex_show1_def ex_incoming_section_def ex_archive_tv_def path_join_def)
  show ?thesis
    by (simp add: archiveTarget_def ex_place_config_simps s ex_place_best
             del: bestSectionLoop.simps)
qed

text \<open>
  On the example the release from the section labelled \<open>tv\<close> goes to the section
  labelled \<open>movies\<close>.
\<close>

theorem manageArchive_destination_most_free_witness:
  "archiveTarget ex_place_config ex_show1 ex_place_world
     = Some (ex_incoming_section, ex_archive_movies)
   \<and> sec_section ex_archive_movies \<noteq> sec_section ex_incoming_section
   \<and> (\<exists>i most. i < length (archiveDisksSections ex_place_config)
            \<and> archiveDisksSections ex_place_config ! i = ex_archive_movies
            \<and> getFreeSpace ex_place_world (sec_device ex_archive_movies) = Inr (Num most)
            \<and> (\<forall>j < length (archiveDisksSections ex_place_config). \<forall>f.
                  getFreeSpace ex_place_world (sec_device (archiveDisksSections ex_place_config ! j))
                    = Inr (Num f)
                  \<longrightarrow> f \<le> most)
            \<and> (\<forall>j < i. \<forall>f.
                  getFreeSpace ex_place_world (sec_device (archiveDisksSections ex_place_config ! j))
                    = Inr (Num f)
                  \<longrightarrow> f < most))
   \<and> (\<exists>j < length (archiveDisksSections ex_place_config).
         sec_section (archiveDisksSections ex_place_config ! j) = sec_section ex_incoming_section)
   \<and> (debug ex_place_config
        \<or> (\<exists>rest. issued (snd (archivePlace ex_place_config ex_show1 ex_place_world))
              = issued ex_place_world
                @ RmRf (path_join (sec_path ex_archive_movies) (rel_name ex_show1)) # rest))"
proof -
  note h = ex_place_target
  have l: "sec_section ex_archive_movies \<noteq> sec_section ex_incoming_section"
    by code_simp
  from h l manageArchive_destination_most_free[OF h] show ?thesis by blast
qed

text \<open>
  A transfer whose copy ran and whose count verification fails: the result is \<open>false\<close>,
  and the world is the one the copy left.
\<close>

lemma archivePlace_unverified:
  assumes target: "archiveTarget cfg rel w = Some (inc, best)"
    and nodebug: "\<not> debug cfg"
    and wipe: "wipeDestination (sec_path best) (rel_name rel) w = (Inr (), w1)"
    and copy: "rcloneSync cfg (sec_path inc) (rel_name rel) (sec_path best) w1 = (Inr (), w2)"
    and mismatch: "\<not> verifyFileCount (path_join (sec_path inc) (rel_name rel))
                      (path_join (sec_path best) (rel_name rel)) w2"
  shows "archivePlace cfg rel w = (False, w2)"
    and "issued w2 = issued w @ [RmRf (path_join (sec_path best) (rel_name rel)),
                                  RcloneCopy (path_join (sec_path inc) (rel_name rel))
                                             (path_join (sec_path best) (rel_name rel))]"
proof -
  show "archivePlace cfg rel w = (False, w2)"
    using assms by (simp add: archivePlace_def archiveTransfer_def)
  from wipeDestination_issued[OF wipe] rcloneSync_issued[OF copy nodebug]
  show "issued w2 = issued w @ [RmRf (path_join (sec_path best) (rel_name rel)),
                                  RcloneCopy (path_join (sec_path inc) (rel_name rel))
                                             (path_join (sec_path best) (rel_name rel))]"
    by simp
qed

text \<open>
  C1. When a release is placed (a destination was chosen, debug mode is off, the
  destination was wiped and the copy ran) and the file counts of source and destination
  do not match, \<open>manageArchive\<close> returns \<open>false\<close> and the world it leaves is the world
  the copy left: the only commands issued are the removal of the destination path and
  the copy, so the source is not removed and no \<open>touch\<close> is issued.
\<close>

theorem manageArchive_count_mismatch_keeps_source:
  assumes target: "archiveTarget cfg rel w = Some (inc, best)"
    and nodebug: "\<not> debug cfg"
    and wipe: "wipeDestination (sec_path best) (rel_name rel) w = (Inr (), w1)"
    and copy: "rcloneSync cfg (sec_path inc) (rel_name rel) (sec_path best) w1 = (Inr (), w2)"
    and mismatch: "\<not> verifyFileCount (path_join (sec_path inc) (rel_name rel))
                      (path_join (sec_path best) (rel_name rel)) w2"
  shows "manageArchive cfg (Some rel) w = Some (Inr False, w2)
         \<and> issued w2 = issued w @ [RmRf (path_join (sec_path best) (rel_name rel)),
                                     RcloneCopy (path_join (sec_path inc) (rel_name rel))
                                                (path_join (sec_path best) (rel_name rel))]"
  using archivePlace_unverified[OF assms] by (simp add: manageArchive_def)


text \<open>
  The example with a copy that leaves one of the two entries: afterwards the source is as
  it was, and the destination exists with the time of the copy.
\<close>

lemma ex_place_wipe:
  "wipeDestination (sec_path ex_archive_movies) (rel_name ex_show1) ex_place_world
     = (Inr (), ex_place_world1)"
proof -
  have "fst (wipeDestination (sec_path ex_archive_movies) (rel_name ex_show1) ex_place_world) = Inr ()"
    by code_simp
  moreover have "sec_path ex_archive_movies = ''/archive2/movies''" "rel_name ex_show1 = ''show1''"
    by (simp_all add: ex_archive_movies_def ex_show1_def)
  ultimately show ?thesis by (simp add: prod_eq_iff ex_place_world1_def)
qed

lemma ex_place_copy:
  "rcloneSync ex_place_config (sec_path ex_incoming_section) (rel_name ex_show1)
     (sec_path ex_archive_movies) ex_place_world1 = (Inr (), ex_place_world2)"
proof -
  have "fst (rcloneSync ex_place_config (sec_path ex_incoming_section) (rel_name ex_show1)
     (sec_path ex_archive_movies) ex_place_world1) = Inr ()"
    by code_simp
  moreover have "sec_path ex_archive_movies = ''/archive2/movies''" "rel_name ex_show1 = ''show1''"
    "sec_path ex_incoming_section = ''/incoming/tv''"
    by (simp_all add: ex_archive_movies_def ex_show1_def ex_incoming_section_def)
  ultimately show ?thesis by (simp add: prod_eq_iff ex_place_world2_def)
qed

lemma ex_place_mismatch:
  "\<not> verifyFileCount (path_join (sec_path ex_incoming_section) (rel_name ex_show1))
        (path_join (sec_path ex_archive_movies) (rel_name ex_show1)) ex_place_world2"
  by code_simp

lemmas ex_place_nodebug = ex_place_config_simps(4)

theorem manageArchive_count_mismatch_keeps_source_witness:
  "archiveTarget ex_place_config ex_show1 ex_place_world
     = Some (ex_incoming_section, ex_archive_movies)
   \<and> \<not> debug ex_place_config
   \<and> wipeDestination (sec_path ex_archive_movies) (rel_name ex_show1) ex_place_world
       = (Inr (), ex_place_world1)
   \<and> rcloneSync ex_place_config (sec_path ex_incoming_section) (rel_name ex_show1)
         (sec_path ex_archive_movies) ex_place_world1 = (Inr (), ex_place_world2)
   \<and> \<not> verifyFileCount (path_join (sec_path ex_incoming_section) (rel_name ex_show1))
          (path_join (sec_path ex_archive_movies) (rel_name ex_show1)) ex_place_world2
   \<and> manageArchive ex_place_config (Some ex_show1) ex_place_world
       = Some (Inr False, ex_place_world2)
   \<and> issued ex_place_world2
       = issued ex_place_world
         @ [RmRf (path_join (sec_path ex_archive_movies) (rel_name ex_show1)),
            RcloneCopy (path_join (sec_path ex_incoming_section) (rel_name ex_show1))
                       (path_join (sec_path ex_archive_movies) (rel_name ex_show1))]
   \<and> fs ex_place_world2 ''/incoming/tv/show1''
       = Some (ex_dir 1000 [Dirent ''a'' False, Dirent ''b'' False] 2048)
   \<and> fs ex_place_world2 ''/archive2/movies/show1''
       = Some (ex_dir 9999 [Dirent ''a'' False] 1024)"
proof -
  have src: "fs ex_place_world2 ''/incoming/tv/show1''
       = Some (ex_dir 1000 [Dirent ''a'' False, Dirent ''b'' False] 2048)"
    by code_simp
  have dst: "fs ex_place_world2 ''/archive2/movies/show1''
       = Some (ex_dir 9999 [Dirent ''a'' False] 1024)"
    by code_simp
  from manageArchive_count_mismatch_keeps_source
         [OF ex_place_target ex_place_nodebug ex_place_wipe ex_place_copy ex_place_mismatch]
       ex_place_target ex_place_nodebug ex_place_wipe ex_place_copy ex_place_mismatch src dst
  show ?thesis by blast
qed

lemma verifyFileCount_unreadable:
  "readdir w source = None \<or> readdir w destination = None
   \<Longrightarrow> \<not> verifyFileCount source destination w"
  by (auto simp: verifyFileCount_def split: option.splits)

text \<open>
  C10. When either directory cannot be listed, \<open>verifyFileCount\<close> returns \<open>false\<close> (it is
  a total function: the failure is caught, not raised). When the two directories are the
  source and the destination of a migration whose copy ran, \<open>manageArchive\<close> therefore
  returns \<open>false\<close> and leaves the world as the copy left it: the only commands issued
  are the removal of the destination path and the copy, never the removal of the source.
\<close>

theorem verifyFileCount_unreadable_fails_migration:
  assumes unreadable: "readdir w2 source = None \<or> readdir w2 destination = None"
  shows "verifyFileCount source destination w2 = False
         \<and> (archiveTarget cfg rel w = Some (inc, best)
              \<and> \<not> debug cfg
              \<and> wipeDestination (sec_path best) (rel_name rel) w = (Inr (), w1)
              \<and> rcloneSync cfg (sec_path inc) (rel_name rel) (sec_path best) w1 = (Inr (), w2)
              \<and> source = path_join (sec_path inc) (rel_name rel)
              \<and> destination = path_join (sec_path best) (rel_name rel)
            \<longrightarrow> manageArchive cfg (Some rel) w = Some (Inr False, w2)
                \<and> issued w2 = issued w @ [RmRf destination, RcloneCopy source destination])"
proof (intro conjI impI)
  from verifyFileCount_unreadable[OF unreadable]
  show v: "verifyFileCount source destination w2 = False" by simp
  assume h: "archiveTarget cfg rel w = Some (inc, best)
              \<and> \<not> debug cfg
              \<and> wipeDestination (sec_path best) (rel_name rel) w = (Inr (), w1)
              \<and> rcloneSync cfg (sec_path inc) (rel_name rel) (sec_path best) w1 = (Inr (), w2)
              \<and> source = path_join (sec_path inc) (rel_name rel)
              \<and> destination = path_join (sec_path best) (rel_name rel)"
  with v have m: "\<not> verifyFileCount (path_join (sec_path inc) (rel_name rel))
                      (path_join (sec_path best) (rel_name rel)) w2"
    by simp
  from h archivePlace_unverified[OF _ _ _ _ m]
  have p: "archivePlace cfg rel w = (False, w2)"
    and i: "issued w2 = issued w @ [RmRf destination, RcloneCopy source destination]"
    by blast+
  from p show "manageArchive cfg (Some rel) w = Some (Inr False, w2)"
    by (simp add: manageArchive_def)
  from i show "issued w2 = issued w @ [RmRf destination, RcloneCopy source destination]" .
qed

text \<open>The example with a source directory that cannot be listed.\<close>

lemma ex_unread_probe_tv: "getFreeSpace ex_unread_world ''/dev/sdb1'' = Inr (Num 300)"
  by code_simp

lemma ex_unread_probe_movies: "getFreeSpace ex_unread_world ''/dev/sdc1'' = Inr (Num 500)"
  by code_simp

lemma ex_unread_best:
  "bestSectionLoop ex_unread_world [ex_archive_tv, ex_archive_movies] (None, 0)
     = (Some ex_archive_movies, 500)"
proof -
  have "sec_device ex_archive_tv = ''/dev/sdb1''" "sec_device ex_archive_movies = ''/dev/sdc1''"
    by (simp_all add: ex_archive_tv_def ex_archive_movies_def)
  then show ?thesis by (simp add: ex_unread_probe_tv ex_unread_probe_movies)
qed

lemma ex_unread_target:
  "archiveTarget ex_place_config ex_show1 ex_unread_world
     = Some (ex_incoming_section, ex_archive_movies)"
proof -
  have s: "rel_path ex_show1 = path_join (sec_path ex_incoming_section) (rel_name ex_show1)"
    "sec_section ex_archive_tv = sec_section ex_incoming_section"
    "rel_size ex_show1 = 2048"
    by (simp_all add: ex_show1_def ex_incoming_section_def ex_archive_tv_def path_join_def)
  show ?thesis
    by (simp add: archiveTarget_def ex_place_config_simps s ex_unread_best
             del: bestSectionLoop.simps)
qed

lemma ex_paths:
  "sec_path ex_archive_movies = ''/archive2/movies''"
  "rel_name ex_show1 = ''show1''"
  "sec_path ex_incoming_section = ''/incoming/tv''"
  by (simp_all add: ex_archive_movies_def ex_show1_def ex_incoming_section_def)

lemma ex_unread_wipe:
  "wipeDestination (sec_path ex_archive_movies) (rel_name ex_show1) ex_unread_world
     = (Inr (), ex_unread_world1)"
proof -
  have "fst (wipeDestination (sec_path ex_archive_movies) (rel_name ex_show1) ex_unread_world)
          = Inr ()"
    by code_simp
  then show ?thesis by (simp add: prod_eq_iff ex_unread_world1_def ex_paths)
qed

lemma ex_unread_copy:
  "rcloneSync ex_place_config (sec_path ex_incoming_section) (rel_name ex_show1)
     (sec_path ex_archive_movies) ex_unread_world1 = (Inr (), ex_unread_world2)"
proof -
  have "fst (rcloneSync ex_place_config (sec_path ex_incoming_section) (rel_name ex_show1)
     (sec_path ex_archive_movies) ex_unread_world1) = Inr ()"
    by code_simp
  then show ?thesis by (simp add: prod_eq_iff ex_unread_world2_def ex_paths)
qed

lemma ex_unread_source:
  "readdir ex_unread_world2 (path_join (sec_path ex_incoming_section) (rel_name ex_show1)) = None"
  by code_simp

lemma ex_unread_source_kept:
  "fs ex_unread_world2 ''/incoming/tv/show1''
     = Some ((ex_dir 1000 [Dirent ''a'' False, Dirent ''b'' False] 2048)\<lparr>readable := False\<rparr>)"
  by code_simp

theorem verifyFileCount_unreadable_fails_migration_witness:
  "readdir ex_unread_world2 (path_join (sec_path ex_incoming_section) (rel_name ex_show1)) = None
   \<and> verifyFileCount (path_join (sec_path ex_incoming_section) (rel_name ex_show1))
        (path_join (sec_path ex_archive_movies) (rel_name ex_show1)) ex_unread_world2 = False
   \<and> archiveTarget ex_place_config ex_show1 ex_unread_world
       = Some (ex_incoming_section, ex_archive_movies)
   \<and> \<not> debug ex_place_config
   \<and> wipeDestination (sec_path ex_archive_movies) (rel_name ex_show1) ex_unread_world
       = (Inr (), ex_unread_world1)
   \<and> rcloneSync ex_place_config (sec_path ex_incoming_section) (rel_name ex_show1)
         (sec_path ex_archive_movies) ex_unread_world1 = (Inr (), ex_unread_world2)
   \<and> manageArchive ex_place_config (Some ex_show1) ex_unread_world
       = Some (Inr False, ex_unread_world2)
   \<and> issued ex_unread_world2
       = issued ex_unread_world
         @ [RmRf (path_join (sec_path ex_archive_movies) (rel_name ex_show1)),
            RcloneCopy (path_join (sec_path ex_incoming_section) (rel_name ex_show1))
                       (path_join (sec_path ex_archive_movies) (rel_name ex_show1))]
   \<and> fs ex_unread_world2 ''/incoming/tv/show1''
       = Some ((ex_dir 1000 [Dirent ''a'' False, Dirent ''b'' False] 2048)\<lparr>readable := False\<rparr>)"
proof -
  have u: "readdir ex_unread_world2 (path_join (sec_path ex_incoming_section) (rel_name ex_show1)) = None
        \<or> readdir ex_unread_world2 (path_join (sec_path ex_archive_movies) (rel_name ex_show1)) = None"
    using ex_unread_source by simp
  from verifyFileCount_unreadable_fails_migration
         [OF u, of ex_place_config ex_show1 ex_unread_world ex_incoming_section
            ex_archive_movies ex_unread_world1]
       ex_unread_source ex_unread_target ex_place_nodebug ex_unread_wipe ex_unread_copy
       ex_unread_source_kept
  show ?thesis by blast
qed

text \<open>
  The size check. The release's size is a byte count (\<open>getDirectorySize\<close> sums
  \<open>stat.size\<close>), so its size in GB is the count divided by \<open>1024 * 1024 * 1024\<close>; the
  check divides by \<open>1024\<close>. Since the quotient the check uses is the larger one, a
  release that does not fit by the claim's measure is refused, and nothing is issued.
\<close>

lemma manageArchive_insufficient_space:
  assumes "bestSectionLoop w (archiveDisksSections cfg) (None, 0) = (b, most)"
    and "(of_int most :: rat) < of_int (rel_size rel) / (1024 * 1024 * 1024)
                                 + of_int (archiveBufferGB cfg)"
    and "0 \<le> rel_size rel"
  shows "manageArchive cfg (Some rel) w = Some (Inr False, w)"
proof -
  have "(of_int (rel_size rel) :: rat) / (1024 * 1024 * 1024) \<le> of_int (rel_size rel) / 1024"
    using assms(3) by (simp add: field_simps)
  with assms(2) have "(of_int most :: rat) < of_int (rel_size rel) / 1024
                                 + of_int (archiveBufferGB cfg)"
    by linarith
  with assms(1) have "archiveTarget cfg rel w = None"
    by (simp add: archiveTarget_def split: option.splits)
  then show ?thesis by (simp add: manageArchive_def archivePlace_def)
qed

lemma ex_place_target2:
  "archiveTarget ex_place_config ex_show2 ex_place_world = None"
proof -
  have s: "rel_path ex_show2 = path_join (sec_path ex_incoming_section) (rel_name ex_show2)"
    "sec_section ex_archive_tv = sec_section ex_incoming_section"
    "rel_size ex_show2 = 1073741824"
    by (simp_all add: ex_show2_def ex_incoming_section_def ex_archive_tv_def path_join_def)
  show ?thesis
    by (simp add: archiveTarget_def ex_place_config_simps s ex_place_best
             del: bestSectionLoop.simps)
qed

text \<open>
  C2. The claim: when the most free space is at least the release's size in GB plus the
  buffer, the check passes and the transfer is attempted. For the release \<open>show2\<close> of one
  GiB, a buffer of 10 GB and 500 GB free on the best device, \<open>500 < 1 + 10\<close> is false,
  yet \<open>manageArchive\<close> returns \<open>false\<close> at the size check and the world is unchanged: the
  check compares 500 with \<open>1073741824 / 1024 + 10\<close>.
\<close>

theorem manageArchive_size_check_wrong_unit:
  "bestSectionLoop ex_place_world (archiveDisksSections ex_place_config) (None, 0)
     = (Some ex_archive_movies, 500)
   \<and> \<not> ((500::rat) < of_int (rel_size ex_show2) / (1024 * 1024 * 1024)
                       + of_int (archiveBufferGB ex_place_config))
   \<and> manageArchive ex_place_config (Some ex_show2) ex_place_world
       = Some (Inr False, ex_place_world)"
proof -
  have "rel_size ex_show2 = 1073741824" by (simp add: ex_show2_def)
  then show ?thesis
    by (simp add: manageArchive_def archivePlace_def ex_place_target2 ex_place_config_simps
          ex_place_best del: bestSectionLoop.simps)
qed

section \<open>The incoming manager and an empty release\<close>

lemma deleteDirectory_succeeds:
  assumes "readdir w p = Some es" and "\<not> denied w p"
  shows "deleteDirectory p w
           = (Inr (), (issue (DeleteDirectory p) w)\<lparr>fs := remove_tree p (fs w)\<rparr>)"
  using assms by (simp add: deleteDirectory_def)

lemma isDirectoryEmpty_readdir:
  "isDirectoryEmpty w p \<Longrightarrow> readdir w p = Some []"
  by (auto simp: isDirectoryEmpty_def split: option.splits)

text \<open>
  The one path on which the empty case ends the call. Outside debug mode, when the device
  is below the limit, the oldest release's directory is empty, its removal is not refused
  and the probe after the removal reports free space at or above the limit,
  \<open>manageIncoming\<close> returns \<open>true\<close>, the directory is gone, and its deletion is the only
  command issued: no announcement, no removal at an archive, no copy.
\<close>

lemma manageIncoming_empty_release_deleted:
  assumes probe: "getFreeSpace w (sec_device sec) = Inr f"
    and low: "\<not> js_ge f (freeSpaceLimitGBRace cfg)"
    and oldest: "getOldestIncomingRelease (incomingDisksSections cfg) w = Some r"
    and empty: "isDirectoryEmpty w (rel_path r)"
    and nodebug: "\<not> debug cfg"
    and allowed: "\<not> denied w (rel_path r)"
    and reprobe: "getFreeSpace (snd (deleteDirectory (rel_path r) w)) (sec_device sec) = Inr f'"
    and enough: "js_ge f' (freeSpaceLimitGBRace cfg)"
  shows "fst (manageIncoming cfg sec w) = Inr True
         \<and> issued (snd (manageIncoming cfg sec w)) = issued w @ [DeleteDirectory (rel_path r)]
         \<and> fs (snd (manageIncoming cfg sec w)) (rel_path r) = None"
proof -
  let ?w1 = "(issue (DeleteDirectory (rel_path r)) w)\<lparr>fs := remove_tree (rel_path r) (fs w)\<rparr>"
  have d: "deleteDirectory (rel_path r) w = (Inr (), ?w1)"
    by (rule deleteDirectory_succeeds[OF isDirectoryEmpty_readdir[OF empty] allowed])
  with reprobe have p': "getFreeSpace ?w1 (sec_device sec) = Inr f'" by simp
  have m: "manageIncoming cfg sec w = (Inr True, ?w1)"
    using probe low oldest empty nodebug d p' enough
    by (simp add: manageIncoming_def)
  show ?thesis
    by (simp add: m issue_def remove_tree_def)
qed

text \<open>The example in which the device reaches the limit once \<open>empty1\<close> is gone.\<close>

lemma ex_empty_probe: "getFreeSpace ex_empty_world ''/dev/sda1'' = Inr (Num 50)"
  by code_simp

lemma ex_empty_oldest:
  "getOldestIncomingRelease [ex_incoming_section] ex_empty_world = Some ex_empty1"
  by code_simp

lemma ex_empty_is_empty: "isDirectoryEmpty ex_empty_world ''/incoming/tv/empty1''"
  by code_simp

lemma ex_empty_reprobe:
  "getFreeSpace (snd (deleteDirectory ''/incoming/tv/empty1'' ex_empty_world)) ''/dev/sda1''
     = Inr (Num 150)"
  by code_simp

lemma ex_empty_simps:
  "sec_device ex_incoming_section = ''/dev/sda1''"
  "rel_path ex_empty1 = ''/incoming/tv/empty1''"
  "freeSpaceLimitGBRace ex_place_config = 100"
  "\<not> denied ex_empty_world p"
  by (simp_all add: ex_incoming_section_def ex_empty1_def ex_place_config_def ex_empty_world_def)

lemma manageIncoming_empty_release_deleted_example:
  "getFreeSpace ex_empty_world (sec_device ex_incoming_section) = Inr (Num 50)
   \<and> \<not> js_ge (Num 50) (freeSpaceLimitGBRace ex_place_config)
   \<and> getOldestIncomingRelease (incomingDisksSections ex_place_config) ex_empty_world
       = Some ex_empty1
   \<and> isDirectoryEmpty ex_empty_world (rel_path ex_empty1)
   \<and> \<not> debug ex_place_config
   \<and> \<not> denied ex_empty_world (rel_path ex_empty1)
   \<and> getFreeSpace (snd (deleteDirectory (rel_path ex_empty1) ex_empty_world))
         (sec_device ex_incoming_section) = Inr (Num 150)
   \<and> js_ge (Num 150) (freeSpaceLimitGBRace ex_place_config)
   \<and> fst (manageIncoming ex_place_config ex_incoming_section ex_empty_world) = Inr True
   \<and> issued (snd (manageIncoming ex_place_config ex_incoming_section ex_empty_world))
       = issued ex_empty_world @ [DeleteDirectory (rel_path ex_empty1)]
   \<and> fs (snd (manageIncoming ex_place_config ex_incoming_section ex_empty_world))
         (rel_path ex_empty1) = None"
proof -
  have h1: "getFreeSpace ex_empty_world (sec_device ex_incoming_section) = Inr (Num 50)"
    by (simp add: ex_empty_simps ex_empty_probe)
  have h2: "\<not> js_ge (Num 50) (freeSpaceLimitGBRace ex_place_config)"
    by (simp add: ex_empty_simps)
  have h3: "getOldestIncomingRelease (incomingDisksSections ex_place_config) ex_empty_world
              = Some ex_empty1"
    by (simp add: ex_place_config_simps ex_empty_oldest)
  have h4: "isDirectoryEmpty ex_empty_world (rel_path ex_empty1)"
    by (simp add: ex_empty_simps ex_empty_is_empty)
  have h6: "\<not> denied ex_empty_world (rel_path ex_empty1)"
    by (simp add: ex_empty_simps)
  have h7: "getFreeSpace (snd (deleteDirectory (rel_path ex_empty1) ex_empty_world))
              (sec_device ex_incoming_section) = Inr (Num 150)"
    by (simp add: ex_empty_simps ex_empty_reprobe)
  have h8: "js_ge (Num 150) (freeSpaceLimitGBRace ex_place_config)"
    by (simp add: ex_empty_simps)
  from manageIncoming_empty_release_deleted[OF h1 h2 h3 h4 ex_place_nodebug h6 h7 h8]
       h1 h2 h3 h4 ex_place_nodebug h6 h7 h8
  show ?thesis by blast
qed

text \<open>The same world in debug mode.\<close>

lemma ex_debug_simps:
  "incomingDisksSections ex_place_debug_config = [ex_incoming_section]"
  "archiveDisksSections ex_place_debug_config = [ex_archive_tv, ex_archive_movies]"
  "archiveBufferGB ex_place_debug_config = 10"
  "freeSpaceLimitGBRace ex_place_debug_config = 100"
  "debug ex_place_debug_config"
  by (simp_all add: ex_place_debug_config_def ex_place_config_def)

lemma ex_empty_probe_tv: "getFreeSpace ex_empty_world ''/dev/sdb1'' = Inr (Num 300)"
  by code_simp

text \<open>
  In debug mode nothing is executed: the call returns \<open>true\<close> and the world is unchanged,
  the empty directory of the oldest release included.
\<close>

lemma manageIncoming_debug_keeps_empty_release:
  "getOldestIncomingRelease (incomingDisksSections ex_place_debug_config) ex_empty_world
     = Some ex_empty1
   \<and> isDirectoryEmpty ex_empty_world (rel_path ex_empty1)
   \<and> manageIncoming ex_place_debug_config ex_incoming_section ex_empty_world
       = (Inr True, ex_empty_world)
   \<and> fs ex_empty_world (rel_path ex_empty1) = Some (ex_dir 500 [] 0)"
proof -
  have a: "sec_section ex_archive_tv = rel_section ex_empty1"
    by (simp add: ex_empty1_def ex_archive_tv_def)
  have b: "sec_device ex_archive_tv = ''/dev/sdb1''" "rel_size ex_empty1 = 0"
    by (simp_all add: ex_archive_tv_def ex_empty1_def)
  have c: "fs ex_empty_world (rel_path ex_empty1) = Some (ex_dir 500 [] 0)"
    by code_simp
  have m: "manageIncoming ex_place_debug_config ex_incoming_section ex_empty_world
       = (Inr True, ex_empty_world)"
    by (simp add: manageIncoming_def manageIncoming_move_def ex_debug_simps ex_empty_simps
          ex_empty_probe ex_empty_oldest ex_empty_is_empty a b ex_empty_probe_tv
          proc_announce_def Let_def)
  show ?thesis
    by (simp add: m c ex_debug_simps ex_empty_oldest) (simp add: ex_empty_simps ex_empty_is_empty)
qed

text \<open>
  Outside debug mode, when the free space is still below the limit after the empty
  directory was deleted, there is no return: the call goes on as \<open>manageIncoming_move\<close> with
  the release it has just deleted.
\<close>

lemma manageIncoming_empty_still_low:
  assumes probe: "getFreeSpace w (sec_device sec) = Inr f"
    and low: "\<not> js_ge f (freeSpaceLimitGBRace cfg)"
    and oldest: "getOldestIncomingRelease (incomingDisksSections cfg) w = Some r"
    and empty: "isDirectoryEmpty w (rel_path r)"
    and nodebug: "\<not> debug cfg"
    and allowed: "\<not> denied w (rel_path r)"
    and reprobe: "getFreeSpace (snd (deleteDirectory (rel_path r) w)) (sec_device sec) = Inr f'"
    and still: "\<not> js_ge f' (freeSpaceLimitGBRace cfg)"
  shows "manageIncoming cfg sec w
         = manageIncoming_move cfg sec r f' (snd (deleteDirectory (rel_path r) w))"
proof -
  let ?w1 = "(issue (DeleteDirectory (rel_path r)) w)\<lparr>fs := remove_tree (rel_path r) (fs w)\<rparr>"
  have d: "deleteDirectory (rel_path r) w = (Inr (), ?w1)"
    by (rule deleteDirectory_succeeds[OF isDirectoryEmpty_readdir[OF empty] allowed])
  with reprobe have p': "getFreeSpace ?w1 (sec_device sec) = Inr f'" by simp
  show ?thesis
    using probe low oldest empty nodebug d p' still
    by (simp add: manageIncoming_def)
qed

text \<open>
  C3. The claim: when the oldest release's directory is empty, it is deleted, no migration
  of that release is attempted afterwards, and the call returns \<open>true\<close>. Outside debug
  mode, with the incoming device still at 50 GB after the empty directory \<open>empty1\<close> was
  deleted: with an archive section for the label, the directory of that name is wiped at
  the archive and a copy of the deleted directory is started; with no archive section,
  the directory is deleted a second time, which fails, and the call returns \<open>false\<close>.
\<close>

theorem manageIncoming_empty_release_falls_through:
  "getOldestIncomingRelease (incomingDisksSections ex_place_config) ex_low_world = Some ex_empty1
   \<and> isDirectoryEmpty ex_low_world (rel_path ex_empty1)
   \<and> fst (manageIncoming ex_place_config ex_incoming_section ex_low_world) = Inr True
   \<and> issued (snd (manageIncoming ex_place_config ex_incoming_section ex_low_world))
       = [DeleteDirectory ''/incoming/tv/empty1'', RmRf ''/archive2/movies/empty1'',
          RcloneCopy ''/incoming/tv/empty1'' ''/archive2/movies/empty1'']
   \<and> fst (manageIncoming ex_no_archive_config ex_incoming_section ex_low_world) = Inr False
   \<and> issued (snd (manageIncoming ex_no_archive_config ex_incoming_section ex_low_world))
       = [DeleteDirectory ''/incoming/tv/empty1'', DeleteDirectory ''/incoming/tv/empty1'']"
  by code_simp

section \<open>The reclaim loop\<close>

text \<open>One turn of the loop, case by case.\<close>

lemma reclaimLoop_enough:
  "\<not> js_lt f (freeSpaceLimitGBArchive cfg) \<Longrightarrow> reclaimLoop cfg dev secs f c w = Some (c, w)"
  by (subst reclaimLoop.simps) simp

lemma reclaimLoop_exhausted:
  "js_lt f (freeSpaceLimitGBArchive cfg) \<Longrightarrow> getOldestArchiveRelease secs w = None
   \<Longrightarrow> reclaimLoop cfg dev secs f c w = Some (c, w)"
  by (subst reclaimLoop.simps) simp

lemma reclaimLoop_deleted:
  assumes "js_lt f (freeSpaceLimitGBArchive cfg)"
    and "getOldestArchiveRelease secs w = Some r"
    and "\<not> debug cfg"
    and "deleteDirectory (rel_path r)
           (proc_announce cfg (TDELA (rel_name r) (sizeMB (rel_size r)) (rel_section r)) w)
         = (Inr (), w2)"
    and "getFreeSpace w2 dev = Inr f'"
  shows "reclaimLoop cfg dev secs f c w = reclaimLoop cfg dev secs f' True w2"
  using assms by (subst reclaimLoop.simps) simp

text \<open>
  In debug mode a turn that finds a release neither deletes it nor leaves the loop: the
  next turn starts from the same free space and the same world. So a loop that returns was
  not in that situation.
\<close>

lemma reclaimLoop_returns_not_debug:
  assumes ret: "reclaimLoop cfg dev secs f c w = Some y"
  shows "\<not> (debug cfg \<and> js_lt f (freeSpaceLimitGBArchive cfg)
        \<and> getOldestArchiveRelease secs w \<noteq> None)"
proof (rule reclaimLoop.raw_induct
         [where P = "\<lambda>cfg dev secs f c w y.
                       \<not> (debug cfg \<and> js_lt f (freeSpaceLimitGBArchive cfg)
                            \<and> getOldestArchiveRelease secs w \<noteq> None)", OF _ ret])
  fix loop :: "config \<Rightarrow> string \<Rightarrow> disk_section list \<Rightarrow> jsnum \<Rightarrow> bool \<Rightarrow> world
               \<Rightarrow> (bool \<times> world) option"
  fix cfg dev secs f c w y
  assume IH: "\<And>cfg dev secs f c w y. loop cfg dev secs f c w = Some y \<Longrightarrow>
                \<not> (debug cfg \<and> js_lt f (freeSpaceLimitGBArchive cfg)
                     \<and> getOldestArchiveRelease secs w \<noteq> None)"
  assume body: "(if js_lt f (freeSpaceLimitGBArchive cfg)
      then case getOldestArchiveRelease secs w of
           None \<Rightarrow> Some (c, w)
           | Some oldestRelease \<Rightarrow>
               let w1 = proc_announce cfg
                         (TDELA (rel_name oldestRelease)
                           (sizeMB (rel_size oldestRelease))
                           (rel_section oldestRelease))
                         w
               in if \<not> debug cfg
                  then case deleteDirectory (rel_path oldestRelease) w1 of
                       (Inl e, w2) \<Rightarrow> Some (c, w2)
                       | (Inr u, w2) \<Rightarrow>
                           case getFreeSpace w2 dev of
                           Inl e \<Rightarrow> Some (c, w2)
                           | Inr freeSpace' \<Rightarrow> loop cfg dev secs freeSpace' True w2
                  else loop cfg dev secs f c w1
      else Some (c, w)) = Some y"
  show "\<not> (debug cfg \<and> js_lt f (freeSpaceLimitGBArchive cfg)
            \<and> getOldestArchiveRelease secs w \<noteq> None)"
  proof
    assume h: "debug cfg \<and> js_lt f (freeSpaceLimitGBArchive cfg)
               \<and> getOldestArchiveRelease secs w \<noteq> None"
    then obtain r where r: "getOldestArchiveRelease secs w = Some r" by auto
    from h r body have "loop cfg dev secs f c w = Some y"
      by (simp add: proc_announce_def)
    from IH[OF this] h show False by simp
  qed
qed

lemma reclaimLoop_debug_diverges:
  assumes "debug cfg"
    and "js_lt f (freeSpaceLimitGBArchive cfg)"
    and "getOldestArchiveRelease secs w \<noteq> None"
  shows "reclaimLoop cfg dev secs f c w = None"
proof (cases "reclaimLoop cfg dev secs f c w")
  case None
  then show ?thesis .
next
  case (Some y)
  from reclaimLoop_returns_not_debug[OF Some] assms show ?thesis by simp
qed

text \<open>
  Outside debug mode the loop ends. A turn that goes round has deleted the release the
  scan returned, and removing a tree leaves every section with no more eligible
  directories than before and without the one removed: the number of candidates falls.
\<close>

lemma length_map_filter:
  "length (List.map_filter f xs) = length (filter (\<lambda>x. f x \<noteq> None) xs)"
  by (induction xs) (auto simp: map_filter_simps split: option.splits)

lemma length_filter_mono:
  "(\<And>x. x \<in> set xs \<Longrightarrow> P x \<Longrightarrow> Q x) \<Longrightarrow> length (filter P xs) \<le> length (filter Q xs)"
  by (induction xs) auto

lemma directoryWithStats_path:
  "directoryWithStats w s d = Some r \<Longrightarrow> rel_path r = fst d"
  by (auto simp: directoryWithStats_def split: option.splits if_splits)

lemma filter_map_filter_path:
  "length (filter (\<lambda>r. rel_path r \<noteq> p) (List.map_filter (directoryWithStats w s) ds))
   = length (filter (\<lambda>d. directoryWithStats w s d \<noteq> None \<and> fst d \<noteq> p) ds)"
  by (induction ds)
     (auto simp: map_filter_simps split: option.splits dest: directoryWithStats_path)

lemma sectionDirectories_filter:
  "sectionDirectories s (filter (\<lambda>e. path_join (sec_path s) (dirent_name e) \<noteq> p) es)
   = filter (\<lambda>d. fst d \<noteq> p) (sectionDirectories s es)"
  by (induction es) (auto simp: sectionDirectories_def)

lemma directoryWithStats_removed:
  assumes "fs w' = remove_tree p (fs w)" and "now w' = now w"
    and "directoryWithStats w' s d \<noteq> None"
  shows "directoryWithStats w s d \<noteq> None"
  using assms
  by (auto simp: directoryWithStats_def stat_def isOlderThanOneDay_def remove_tree_def
           split: option.splits if_splits)

lemma validDirectories_removed:
  assumes f: "fs w' = remove_tree p (fs w)" and n: "now w' = now w"
  shows "length (validDirectories w' s)
         \<le> length (filter (\<lambda>r. rel_path r \<noteq> p) (validDirectories w s))"
proof (cases "readdir w' (sec_path s)")
  case None
  then show ?thesis by (simp add: validDirectories_def)
next
  case (Some es')
  then obtain es where es: "readdir w (sec_path s) = Some es"
    and es': "es' = filter (\<lambda>e. path_join (sec_path s) (dirent_name e) \<noteq> p) es"
    using f by (auto simp: readdir_def remove_tree_def split: option.splits if_splits)
  have "length (validDirectories w' s)
        = length (filter (\<lambda>d. directoryWithStats w' s d \<noteq> None)
                    (filter (\<lambda>d. fst d \<noteq> p) (sectionDirectories s es)))"
    using Some es' by (simp add: validDirectories_def length_map_filter sectionDirectories_filter)
  also have "\<dots> = length (filter (\<lambda>d. directoryWithStats w' s d \<noteq> None \<and> fst d \<noteq> p)
                        (sectionDirectories s es))"
    by (simp add: conj_commute)
  also have "\<dots> \<le> length (filter (\<lambda>d. directoryWithStats w s d \<noteq> None \<and> fst d \<noteq> p)
                        (sectionDirectories s es))"
    by (rule length_filter_mono) (use directoryWithStats_removed[OF f n] in blast)
  also have "\<dots> = length (filter (\<lambda>r. rel_path r \<noteq> p) (validDirectories w s))"
    using es by (simp add: validDirectories_def filter_map_filter_path)
  finally show ?thesis .
qed

lemma candidates_removed:
  assumes f: "fs w' = remove_tree p (fs w)" and n: "now w' = now w"
  shows "length (candidates w' sections)
         \<le> length (filter (\<lambda>r. rel_path r \<noteq> p) (candidates w sections))"
proof (induction sections)
  case Nil
  then show ?case by (simp add: candidates_def)
next
  case (Cons s ss)
  from validDirectories_removed[OF f n, of s] Cons show ?case
    by (simp add: candidates_def)
qed

lemma candidates_shrink:
  assumes f: "fs w' = remove_tree (rel_path r) (fs w)" and n: "now w' = now w"
    and r: "r \<in> set (candidates w sections)"
  shows "length (candidates w' sections) < length (candidates w sections)"
proof -
  from r have "length (filter (\<lambda>x. rel_path x \<noteq> rel_path r) (candidates w sections))
               < length (candidates w sections)"
    by (intro length_filter_less[of r]) auto
  with candidates_removed[OF f n, of sections] show ?thesis by linarith
qed

lemma findOldestDirectory_candidate:
  assumes "findOldestDirectory sections w = Some r"
  shows "r \<in> set (candidates w sections)"
proof -
  from assms have "earliest (candidates w sections) = Some r"
    by (simp add: findOldestDirectory_is_earliest)
  from earliest_Some[OF this] show ?thesis by (auto simp: in_set_conv_nth)
qed

lemma deleteDirectory_world:
  assumes "deleteDirectory p w = (Inr u, w2)"
  shows "fs w2 = remove_tree p (fs w)" and "now w2 = now w"
  using assms
  by (auto simp: deleteDirectory_def issue_def Let_def split: option.splits if_splits)

lemma proc_announce_world:
  "fs (proc_announce cfg a w) = fs w" "now (proc_announce cfg a w) = now w"
  by (simp_all add: proc_announce_def issue_def)

lemma directoryWithStats_cong:
  assumes "fs w' = fs w" and "now w' = now w"
  shows "directoryWithStats w' s d = directoryWithStats w s d"
proof -
  have "stat w' (fst d) = stat w (fst d)"
    "isOlderThanOneDay w' (fst d) = isOlderThanOneDay w (fst d)"
    "getDirectorySize w' (fst d) = getDirectorySize w (fst d)"
    using assms
    by (simp_all add: stat_def isOlderThanOneDay_def getDirectorySize_def
          split: option.splits)
  then show ?thesis by (auto simp: directoryWithStats_def split: option.splits)
qed

lemma validDirectories_cong:
  assumes "fs w' = fs w" and "now w' = now w"
  shows "validDirectories w' s = validDirectories w s"
proof -
  have "readdir w' (sec_path s) = readdir w (sec_path s)"
    using assms(1) by (simp add: readdir_def)
  moreover have "directoryWithStats w' s = directoryWithStats w s"
    by (intro ext directoryWithStats_cong[OF assms])
  ultimately show ?thesis by (simp add: validDirectories_def split: option.splits)
qed

lemma candidates_cong:
  assumes "fs w' = fs w" and "now w' = now w"
  shows "candidates w' sections = candidates w sections"
proof -
  have "validDirectories w' = validDirectories w"
    by (intro ext validDirectories_cong[OF assms])
  then show ?thesis by (simp add: candidates_def)
qed

text \<open>The loop, the loop over the devices and \<open>manageArchiveDiskSpace\<close> return.\<close>

lemma reclaimLoop_terminates:
  assumes nodebug: "\<not> debug cfg"
  shows "\<exists>res. reclaimLoop cfg dev secs f c w = Some res"
proof (induction "length (candidates w secs)" arbitrary: w f c rule: less_induct)
  case less
  show ?case
  proof (cases "js_lt f (freeSpaceLimitGBArchive cfg)")
    case False
    then show ?thesis by (simp add: reclaimLoop_enough)
  next
    case True
    show ?thesis
    proof (cases "getOldestArchiveRelease secs w")
      case None
      with True show ?thesis by (simp add: reclaimLoop_exhausted)
    next
      case (Some r)
      let ?w1 = "proc_announce cfg (TDELA (rel_name r) (sizeMB (rel_size r)) (rel_section r)) w"
      obtain e w2 where d: "deleteDirectory (rel_path r) ?w1 = (e, w2)"
        by (cases "deleteDirectory (rel_path r) ?w1") auto
      show ?thesis
      proof (cases e)
        case (Inl err)
        with True Some nodebug d show ?thesis
          by (subst reclaimLoop.simps) simp
      next
        case (Inr u)
        show ?thesis
        proof (cases "getFreeSpace w2 dev")
          case (Inl err)
          with True Some nodebug d Inr show ?thesis
            by (subst reclaimLoop.simps) simp
        next
          case (Inr f')
          from d \<open>e = Inr u\<close> have d': "deleteDirectory (rel_path r) ?w1 = (Inr (), w2)"
            by simp
          have step: "reclaimLoop cfg dev secs f c w = reclaimLoop cfg dev secs f' True w2"
            by (rule reclaimLoop_deleted[OF True Some nodebug d' Inr])
          from Some have "r \<in> set (candidates w secs)"
            by (simp add: getOldestArchiveRelease_def findOldestDirectory_candidate)
          then have "r \<in> set (candidates ?w1 secs)"
            by (simp add: candidates_cong[OF proc_announce_world])
          from candidates_shrink[OF deleteDirectory_world[OF d'] this]
          have "length (candidates w2 secs) < length (candidates w secs)"
            by (simp add: candidates_cong[OF proc_announce_world])
          from less[OF this] step show ?thesis by simp
        qed
      qed
    qed
  qed
qed

lemma reclaimDevices_terminates:
  assumes nodebug: "\<not> debug cfg"
  shows "\<exists>res. reclaimDevices cfg groups c w = Some res"
proof (induction groups arbitrary: c w)
  case Nil
  then show ?case by simp
next
  case (Cons g gs)
  obtain dev secs where g: "g = (dev, secs)" by (cases g)
  show ?case
  proof (cases "getFreeSpace w dev")
    case (Inl e)
    with g show ?thesis by simp
  next
    case (Inr f)
    from reclaimLoop_terminates[OF nodebug, of dev secs f c w]
    obtain c' w' where l: "reclaimLoop cfg dev secs f c w = Some (c', w')" by auto
    from Cons[of c w] Cons[of c' w'] g Inr l show ?thesis by simp
  qed
qed

lemma manageArchiveDiskSpace_terminates:
  "\<not> debug cfg \<Longrightarrow> \<exists>res. manageArchiveDiskSpace cfg w = Some res"
  unfolding manageArchiveDiskSpace_def by (rule reclaimDevices_terminates)

text \<open>The example device, step by step.\<close>

lemma ex_reclaim_probe0: "getFreeSpace ex_reclaim_world ''/dev/sdb1'' = Inr (Num 50)"
  by code_simp

lemma ex_reclaim_oldest0:
  "getOldestArchiveRelease [ex_archive_section] ex_reclaim_world =
     Some \<lparr>rel_path = ''/archive/tv/r1'', rel_name = ''r1'', rel_mtime = 1000,
            rel_size = 7, rel_section = ''tv''\<rparr>"
  by code_simp

lemma ex_reclaim_delete0: "fst (deleteDirectory ''/archive/tv/r1'' ex_reclaim_world) = Inr ()"
  by code_simp

lemma ex_reclaim_probe1: "getFreeSpace ex_reclaim_world1 ''/dev/sdb1'' = Inr (Num 80)"
  by code_simp

lemma ex_reclaim_oldest1:
  "getOldestArchiveRelease [ex_archive_section] ex_reclaim_world1 =
     Some \<lparr>rel_path = ''/archive/tv/r2'', rel_name = ''r2'', rel_mtime = 2000,
            rel_size = 8, rel_section = ''tv''\<rparr>"
  by code_simp

lemma ex_reclaim_delete1: "fst (deleteDirectory ''/archive/tv/r2'' ex_reclaim_world1) = Inr ()"
  by code_simp

lemma ex_reclaim_probe2: "getFreeSpace ex_reclaim_world2 ''/dev/sdb1'' = Inr (Num 120)"
  by code_simp

lemma ex_reclaim_issued2:
  "issued ex_reclaim_world2 =
     [DeleteDirectory ''/archive/tv/r1'', DeleteDirectory ''/archive/tv/r2'']"
  by code_simp

lemma ex_reclaim_third_intact:
  "fs ex_reclaim_world2 ''/archive/tv/r3'' = Some (ex_dir 3000 [Dirent ''f'' False] 9)"
  by code_simp

lemma ex_reclaim_config_simps:
  "freeSpaceLimitGBArchive ex_reclaim_config = 100"
  "\<not> debug ex_reclaim_config"
  "proc_announce ex_reclaim_config a w = w"
  "archiveDisksSections ex_reclaim_config = [ex_archive_section]"
  by (simp_all add: ex_reclaim_config_def proc_announce_def)

lemma ex_reclaim_loop:
  "reclaimLoop ex_reclaim_config ''/dev/sdb1'' [ex_archive_section] (Num 50) False
     ex_reclaim_world
   = Some (True, ex_reclaim_world2)"
proof -
  have s1: "reclaimLoop ex_reclaim_config ''/dev/sdb1'' [ex_archive_section] (Num 50) False
              ex_reclaim_world
            = reclaimLoop ex_reclaim_config ''/dev/sdb1'' [ex_archive_section] (Num 80) True
                ex_reclaim_world1"
    by (rule reclaimLoop_deleted
               [OF _ ex_reclaim_oldest0 ex_reclaim_config_simps(2) _ ex_reclaim_probe1])
       (simp_all add: ex_reclaim_config_simps prod_eq_iff ex_reclaim_delete0
          ex_reclaim_world1_def)
  have s2: "reclaimLoop ex_reclaim_config ''/dev/sdb1'' [ex_archive_section] (Num 80) True
              ex_reclaim_world1
            = reclaimLoop ex_reclaim_config ''/dev/sdb1'' [ex_archive_section] (Num 120) True
                ex_reclaim_world2"
    by (rule reclaimLoop_deleted
               [OF _ ex_reclaim_oldest1 ex_reclaim_config_simps(2) _ ex_reclaim_probe2])
       (simp_all add: ex_reclaim_config_simps prod_eq_iff ex_reclaim_delete1
          ex_reclaim_world2_def)
  have s3: "reclaimLoop ex_reclaim_config ''/dev/sdb1'' [ex_archive_section] (Num 120) True
              ex_reclaim_world2
            = Some (True, ex_reclaim_world2)"
    by (rule reclaimLoop_enough) (simp add: ex_reclaim_config_simps)
  show ?thesis by (simp only: s1 s2 s3)
qed

lemma ex_reclaim_groups:
  "groupByDevice [ex_archive_section] = [(''/dev/sdb1'', [ex_archive_section])]"
  by (simp add: groupByDevice_def ex_archive_section_def)

lemma ex_reclaim_run:
  "manageArchiveDiskSpace ex_reclaim_config ex_reclaim_world = Some (Inr True, ex_reclaim_world2)"
  by (simp add: manageArchiveDiskSpace_def ex_reclaim_config_simps ex_reclaim_groups
        ex_reclaim_probe0 ex_reclaim_loop)

text \<open>Whatever the reclaimer reports, the call without a release never returns \<open>true\<close>.\<close>

lemma manageArchive_null_release_never_true:
  "manageArchive cfg None w = Some (Inr b, w') \<Longrightarrow> \<not> b"
  by (auto simp: manageArchive_def split: option.splits sum.splits prod.splits)

text \<open>
  C5. The claim: called without a release, the archive manager returns whether any cleanup
  was performed. On the example device the reclaimer deletes two releases and reports
  \<open>true\<close>; \<open>manageArchive\<close> awaits it, drops the value and returns \<open>false\<close>.
\<close>

theorem manageArchive_null_release_drops_result:
  "map_option fst (manageArchiveDiskSpace ex_reclaim_config ex_reclaim_world) = Some (Inr True)
   \<and> map_option fst (manageArchive ex_reclaim_config None ex_reclaim_world) = Some (Inr False)"
  by (simp add: manageArchive_def manageArchiveSpace_def ex_reclaim_run)

text \<open>
  C8. The claim: the reclaim loop always terminates. With \<open>debug\<close> set, on the example
  device (below its limit, with a release to delete), no turn of the loop deletes or
  leaves, and \<open>manageArchiveDiskSpace\<close> never returns.
\<close>

theorem manageArchiveDiskSpace_debug_never_returns:
  "manageArchiveDiskSpace ex_debug_config ex_reclaim_world = None"
proof -
  have c: "debug ex_debug_config" "freeSpaceLimitGBArchive ex_debug_config = 100"
    "archiveDisksSections ex_debug_config = [ex_archive_section]"
    by (simp_all add: ex_debug_config_def ex_reclaim_config_def)
  have "reclaimLoop ex_debug_config ''/dev/sdb1'' [ex_archive_section] (Num 50) False
          ex_reclaim_world = None"
    by (rule reclaimLoop_debug_diverges) (simp_all add: c ex_reclaim_oldest0)
  then show ?thesis
    by (simp add: manageArchiveDiskSpace_def c ex_reclaim_groups ex_reclaim_probe0)
qed

end
